theory Spec2Isabelle
  imports Main "HOL-Library.Monad_Syntax"
begin

unbundle bit_operations_syntax

section \<open>Constants of \<^verbatim>\<open>ttree_defs.h\<close> and \<^verbatim>\<open>ttree.h\<close>\<close>

definition TTREE_DEFAULT_NUMKEYS :: int where "TTREE_DEFAULT_NUMKEYS = 8"
definition TNODE_ITEMS_MIN :: int where "TNODE_ITEMS_MIN = 2"
definition TNODE_ITEMS_MAX :: int where "TNODE_ITEMS_MAX = 4096"

definition TCSR_END :: int where "TCSR_END = - 1"
definition TCSR_OK :: int where "TCSR_OK = 0"

definition TNODE_UNDEF :: int where "TNODE_UNDEF = - 1"
definition TNODE_LEFT :: int where "TNODE_LEFT = 0"
definition TNODE_RIGHT :: int where "TNODE_RIGHT = 1"
definition TNODE_ROOT :: int where "TNODE_ROOT = TNODE_UNDEF"
definition TNODE_BOUND :: int where "TNODE_BOUND = TNODE_UNDEF"

datatype tnode_seek = TNODE_SEEK_START | TNODE_SEEK_END

datatype ttree_cursor_state = CURSOR_CLOSED | CURSOR_OPENED | CURSOR_PENDING

definition EINVAL :: int where "EINVAL = 22"

text \<open>The null pointer of \<^verbatim>\<open>void *\<close> keys and items, which the model keeps as
  integer addresses.\<close>

definition NULL :: int where "NULL = 0"

section \<open>Data model\<close>

text \<open>
  \<^verbatim>\<open>struct ttree_node\<close>. A node pointer is \<open>nat option\<close> (\<open>None\<close> is the null
  pointer); \<open>left\<close> and \<open>right\<close> are \<^verbatim>\<open>sides[0]\<close> and \<^verbatim>\<open>sides[1]\<close>.
  \<^verbatim>\<open>min_idx\<close> and \<^verbatim>\<open>max_idx\<close> are signed 12-bit bit-fields, \<^verbatim>\<open>bfc\<close> a signed
  4-bit one and \<^verbatim>\<open>node_side\<close> an unsigned 4-bit one: every store into them goes
  through the setters below, which keep the low bits only.
  \<open>keys\<close> is the key array, indexed by the C index; cells outside
  \<open>0 .. keys_per_tnode - 1\<close> stand for the memory next to the array.
\<close>

record tnode =
  parent :: "nat option"
  successor :: "nat option"
  left :: "nat option"
  right :: "nat option"
  min_idx :: int
  max_idx :: int
  bfc :: int
  node_side :: int
  keys :: "int \<Rightarrow> int"

definition set_min_idx :: "int \<Rightarrow> tnode \<Rightarrow> tnode" where
  "set_min_idx v n = n\<lparr>min_idx := signed_take_bit 11 v\<rparr>"

definition set_max_idx :: "int \<Rightarrow> tnode \<Rightarrow> tnode" where
  "set_max_idx v n = n\<lparr>max_idx := signed_take_bit 11 v\<rparr>"

definition set_bfc :: "int \<Rightarrow> tnode \<Rightarrow> tnode" where
  "set_bfc v n = n\<lparr>bfc := signed_take_bit 3 v\<rparr>"

definition set_key :: "int \<Rightarrow> int \<Rightarrow> tnode \<Rightarrow> tnode" where
  "set_key i v n = n\<lparr>keys := (keys n)(i := v)\<rparr>"

text \<open>\<^verbatim>\<open>struct ttree\<close>. The comparator is a function pointer, \<open>None\<close> when null.\<close>

record ttree =
  root :: "nat option"
  cmp_func :: "(int \<Rightarrow> int \<Rightarrow> int) option"
  key_offs :: int
  keys_per_tnode :: int
  keys_are_unique :: bool

text \<open>
  \<^verbatim>\<open>struct ttree_cursor\<close>. The store below holds one tree, so the cursor's tree
  pointer is either null (\<open>None\<close>) or that tree (\<open>Some ()\<close>).
\<close>

record ttree_cursor =
  c_ttree :: "unit option"
  c_tnode :: "nat option"
  c_idx :: int
  c_side :: int
  c_state :: ttree_cursor_state

text \<open>
  The memory the library works on: the tree handle, the allocated nodes by address, the
  next address \<^verbatim>\<open>malloc\<close> hands out, and the contents of key slots that have never
  been written (\<^verbatim>\<open>allocate_ttree_node\<close> zeroes the node header only).
\<close>

record store =
  tree :: ttree
  heap :: "nat \<Rightarrow> tnode option"
  brk :: nat
  uninit :: "int \<Rightarrow> int"

section \<open>Node macros\<close>

definition first_tnode_idx :: "ttree \<Rightarrow> int" where
  "first_tnode_idx t = drop_bit 1 (keys_per_tnode t) - 1"

definition min_tnode_entries :: "ttree \<Rightarrow> int" where
  "min_tnode_entries t = keys_per_tnode t - drop_bit 2 (keys_per_tnode t)"

definition is_leaf_node :: "tnode \<Rightarrow> bool" where
  "is_leaf_node n \<longleftrightarrow> left n = None \<and> right n = None"

definition is_internal_node :: "tnode \<Rightarrow> bool" where
  "is_internal_node n \<longleftrightarrow> left n \<noteq> None \<and> right n \<noteq> None"

definition is_half_leaf :: "tnode \<Rightarrow> bool" where
  "is_half_leaf n \<longleftrightarrow>
     (left n = None \<or> right n = None) \<and> \<not> (left n \<noteq> None \<and> right n \<noteq> None)"

definition tnode_num_keys :: "tnode \<Rightarrow> int" where
  "tnode_num_keys n = (max_idx n - min_idx n) + 1"

definition tnode_is_empty :: "tnode \<Rightarrow> bool" where
  "tnode_is_empty n \<longleftrightarrow> tnode_num_keys n = 0"

definition tnode_is_full :: "ttree \<Rightarrow> tnode \<Rightarrow> bool" where
  "tnode_is_full t n \<longleftrightarrow> tnode_num_keys n = keys_per_tnode t"

definition ttree_key2item :: "ttree \<Rightarrow> int \<Rightarrow> int" where
  "ttree_key2item t key = key - key_offs t"

definition ttree_item2key :: "ttree \<Rightarrow> int \<Rightarrow> int" where
  "ttree_item2key t item = item + key_offs t"

definition tnode_key :: "tnode \<Rightarrow> int \<Rightarrow> int" where
  "tnode_key n i = keys n i"

definition tnode_key_min :: "tnode \<Rightarrow> int" where
  "tnode_key_min n = tnode_key n (min_idx n)"

definition tnode_key_max :: "tnode \<Rightarrow> int" where
  "tnode_key_max n = tnode_key n (max_idx n)"


text \<open>\<^verbatim>\<open>tnode_set_side\<close> and \<^verbatim>\<open>tnode_get_side\<close>, on the 4-bit unsigned field.\<close>

definition tnode_set_side :: "int \<Rightarrow> tnode \<Rightarrow> tnode" where
  "tnode_set_side side n =
     n\<lparr>node_side := take_bit 4 ((node_side n AND NOT 3) OR (side + 1))\<rparr>"

definition tnode_get_side :: "tnode \<Rightarrow> int" where
  "tnode_get_side n = (node_side n AND 3) - 1"

text \<open>
  \<^verbatim>\<open>n->sides[side]\<close>: the array has the two cells \<open>0\<close> and \<open>1\<close>; an access with
  another index is outside the array and is a failure of the model.
\<close>

definition sides :: "tnode \<Rightarrow> int \<Rightarrow> nat option option" where
  "sides n side =
     (if side = 0 then Some (left n) else if side = 1 then Some (right n) else None)"

definition set_sides :: "int \<Rightarrow> nat option \<Rightarrow> tnode \<Rightarrow> tnode option" where
  "set_sides side v n =
     (if side = 0 then Some (n\<lparr>left := v\<rparr>)
      else if side = 1 then Some (n\<lparr>right := v\<rparr>) else None)"

text \<open>
  \<^verbatim>\<open>side2bfc\<close> reads the table \<^verbatim>\<open>__balance_factors[] = { -1, 1 }\<close>. For the side
  of a root (\<open>-1\<close>) the read is outside the table: the model returns \<open>None\<close> and
  fails only where that value is used.
\<close>

definition side2bfc :: "int \<Rightarrow> int option" where
  "side2bfc side = (if side = 0 then Some (- 1) else if side = 1 then Some 1 else None)"

definition get_bfc_delta :: "tnode \<Rightarrow> int option" where
  "get_bfc_delta n = side2bfc (tnode_get_side n)"

definition subtree_is_unbalanced :: "tnode \<Rightarrow> bool" where
  "subtree_is_unbalanced n \<longleftrightarrow> bfc n < - 1 \<or> bfc n > 1"

definition opposite_side :: "int \<Rightarrow> int" where
  "opposite_side side = (if side = 0 then 1 else 0)"

definition left_heavy :: "tnode \<Rightarrow> bool" where
  "left_heavy n \<longleftrightarrow> bfc n < 0"

definition right_heavy :: "tnode \<Rightarrow> bool" where
  "right_heavy n \<longleftrightarrow> bfc n > 0"

section \<open>Window of a node\<close>

text \<open>
  \<^verbatim>\<open>for (i = ++tnode->max_idx; i > *idx - 1; i--) tnode->keys[i] = tnode->keys[i - 1];\<close>
\<close>

function increase_right_loop :: "(int \<Rightarrow> int) \<Rightarrow> int \<Rightarrow> int \<Rightarrow> (int \<Rightarrow> int)" where
  "increase_right_loop ks i idx =
     (if i > idx - 1 then increase_right_loop (ks(i := ks (i - 1))) (i - 1) idx else ks)"
  by pat_completeness auto
termination
  by (relation "measure (\<lambda>(ks, i, idx). nat (i - (idx - 1)))") auto

text \<open>
  \<^verbatim>\<open>for (i = --tnode->min_idx; i < *idx; i++) tnode->keys[i] = tnode->keys[i + 1];\<close>
\<close>

function increase_left_loop :: "(int \<Rightarrow> int) \<Rightarrow> int \<Rightarrow> int \<Rightarrow> (int \<Rightarrow> int)" where
  "increase_left_loop ks i idx =
     (if i < idx then increase_left_loop (ks(i := ks (i + 1))) (i + 1) idx else ks)"
  by pat_completeness auto
termination
  by (relation "measure (\<lambda>(ks, i, idx). nat (idx - i))") auto

declare increase_right_loop.simps [simp del] increase_left_loop.simps [simp del]

text \<open>\<^verbatim>\<open>increase_tnode_window\<close>: returns the node and the new value of \<^verbatim>\<open>*idx\<close>.\<close>

definition increase_tnode_window :: "ttree \<Rightarrow> tnode \<Rightarrow> int \<Rightarrow> tnode \<times> int" where
  "increase_tnode_window t n idx =
     (if (keys_per_tnode t - 1 - max_idx n) > min_idx n then
        (let n1 = set_max_idx (max_idx n + 1) n
         in (n1\<lparr>keys := increase_right_loop (keys n1) (max_idx n1) idx\<rparr>, idx))
      else
        (let idx1 = idx - 1;
             n1 = set_min_idx (min_idx n - 1) n
         in (n1\<lparr>keys := increase_left_loop (keys n1) (min_idx n1) idx1\<rparr>, idx1)))"

text \<open>
  \<^verbatim>\<open>for (i = *idx; i <= tnode->max_idx; i++) tnode->keys[i] = tnode->keys[i + 1];\<close>
\<close>

function decrease_right_loop :: "(int \<Rightarrow> int) \<Rightarrow> int \<Rightarrow> int \<Rightarrow> (int \<Rightarrow> int)" where
  "decrease_right_loop ks i mx =
     (if i \<le> mx then decrease_right_loop (ks(i := ks (i + 1))) (i + 1) mx else ks)"
  by pat_completeness auto
termination
  by (relation "measure (\<lambda>(ks, i, mx). nat (mx + 1 - i))") auto

text \<open>
  \<^verbatim>\<open>for (i = *idx; i >= tnode->min_idx; i--) tnode->keys[i] = tnode->keys[i - 1];\<close>
\<close>

function decrease_left_loop :: "(int \<Rightarrow> int) \<Rightarrow> int \<Rightarrow> int \<Rightarrow> (int \<Rightarrow> int)" where
  "decrease_left_loop ks i mn =
     (if i \<ge> mn then decrease_left_loop (ks(i := ks (i - 1))) (i - 1) mn else ks)"
  by pat_completeness auto
termination
  by (relation "measure (\<lambda>(ks, i, mn). nat (i + 1 - mn))") auto

declare decrease_right_loop.simps [simp del] decrease_left_loop.simps [simp del]

text \<open>\<^verbatim>\<open>decrease_tnode_window\<close>: returns the node and the new value of \<^verbatim>\<open>*idx\<close>.\<close>

definition decrease_tnode_window :: "ttree \<Rightarrow> tnode \<Rightarrow> int \<Rightarrow> tnode \<times> int" where
  "decrease_tnode_window t n idx =
     (if (keys_per_tnode t - 1 - max_idx n) \<le> min_idx n then
        (let n1 = set_max_idx (max_idx n - 1) n
         in (n1\<lparr>keys := decrease_right_loop (keys n1) idx (max_idx n1)\<rparr>, idx))
      else
        (let n1 = set_min_idx (min_idx n + 1) n
         in (n1\<lparr>keys := decrease_left_loop (keys n1) idx (min_idx n1)\<rparr>, idx + 1)))"

section \<open>Initialisation\<close>

text \<open>
  \<^verbatim>\<open>__ttree_init\<close>. The first argument is the tree pointer: \<open>None\<close> when null,
  \<open>Some t\<close> when it points to a handle whose contents are \<open>t\<close>. The result is the
  return value, the value of \<^verbatim>\<open>errno\<close> afterwards (the second argument is its value
  before) and the contents of the handle afterwards.
\<close>

definition uu_ttree_init ::
  "ttree option \<Rightarrow> int \<Rightarrow> int \<Rightarrow> bool \<Rightarrow> (int \<Rightarrow> int \<Rightarrow> int) option \<Rightarrow> int
     \<Rightarrow> int \<times> int \<times> ttree option" where
  "uu_ttree_init tp errno num_keys is_unique cmpf key_offs' =
     (if num_keys < TNODE_ITEMS_MIN \<or> num_keys > TNODE_ITEMS_MAX \<or> tp = None \<or> cmpf = None
      then (- 1, EINVAL, tp)
      else (0, errno,
            map_option (\<lambda>t. t\<lparr>root := None, keys_per_tnode := num_keys, cmp_func := cmpf,
                               key_offs := key_offs', keys_are_unique := is_unique\<rparr>) tp))"

section \<open>Reading through a cursor\<close>

text \<open>
  A dereference of a node pointer: null and unallocated addresses fail.
\<close>

definition deref :: "store \<Rightarrow> nat option \<Rightarrow> tnode option" where
  "deref s p = (case p of None \<Rightarrow> None | Some a \<Rightarrow> heap s a)"

text \<open>\<^verbatim>\<open>ttree_key_from_cursor\<close> and \<^verbatim>\<open>ttree_item_from_cursor\<close> (\<^verbatim>\<open>ttree.h\<close>).\<close>

definition ttree_key_from_cursor :: "store \<Rightarrow> ttree_cursor \<Rightarrow> int option" where
  "ttree_key_from_cursor s cursor =
     (if c_state cursor = CURSOR_OPENED then
        do { n \<leftarrow> deref s (c_tnode cursor); Some (tnode_key n (c_idx cursor)) }
      else Some NULL)"

definition ttree_item_from_cursor :: "store \<Rightarrow> ttree_cursor \<Rightarrow> int option" where
  "ttree_item_from_cursor s cursor =
     do {
       key \<leftarrow> ttree_key_from_cursor s cursor;
       if key = NULL then Some NULL
       else do { _ \<leftarrow> c_ttree cursor; Some (ttree_key2item (tree s) key) }
     }"

section \<open>Nodes in memory\<close>

text \<open>
  \<open>modify a f s\<close> is a store through the node pointer \<open>a\<close>; it fails when no node
  is allocated there. \<open>modify_opt\<close> is the same for an update that can itself fail.
\<close>

definition modify :: "nat \<Rightarrow> (tnode \<Rightarrow> tnode) \<Rightarrow> store \<Rightarrow> store option" where
  "modify a f s =
     (case heap s a of None \<Rightarrow> None | Some n \<Rightarrow> Some (s\<lparr>heap := (heap s)(a \<mapsto> f n)\<rparr>))"

definition modify_opt :: "nat \<Rightarrow> (tnode \<Rightarrow> tnode option) \<Rightarrow> store \<Rightarrow> store option" where
  "modify_opt a f s =
     (case heap s a of None \<Rightarrow> None
      | Some n \<Rightarrow> (case f n of None \<Rightarrow> None
                  | Some n' \<Rightarrow> Some (s\<lparr>heap := (heap s)(a \<mapsto> n')\<rparr>)))"

text \<open>An assertion (\<^verbatim>\<open>TTREE_ASSERT\<close> is \<^verbatim>\<open>assert\<close>): the program aborts when it fails.\<close>

definition TTREE_ASSERT :: "bool \<Rightarrow> unit option" where
  "TTREE_ASSERT c = (if c then Some () else None)"

text \<open>
  \<^verbatim>\<open>allocate_ttree_node\<close>: \<^verbatim>\<open>malloc\<close> is taken to succeed and to return the next
  unused address; the header is zeroed, the key slots are not.
\<close>

definition allocate_ttree_node :: "store \<Rightarrow> nat \<times> store" where
  "allocate_ttree_node s =
     (let a = brk s;
          n = \<lparr>parent = None, successor = None, left = None, right = None,
               min_idx = 0, max_idx = 0, bfc = 0, node_side = 0, keys = uninit s\<rparr>
      in (a, s\<lparr>heap := (heap s)(a \<mapsto> n), brk := Suc a\<rparr>))"

text \<open>\<^verbatim>\<open>free\<close>.\<close>

definition free_node :: "nat \<Rightarrow> store \<Rightarrow> store" where
  "free_node a s = s\<lparr>heap := (heap s)(a := None)\<rparr>"

text \<open>\<^verbatim>\<open>!!(n->right) - !!(n->left)\<close>\<close>

definition child_balance :: "tnode \<Rightarrow> int" where
  "child_balance n = (if right n \<noteq> None then 1 else 0) - (if left n \<noteq> None then 1 else 0)"

section \<open>Rotations\<close>

text \<open>
  \<^verbatim>\<open>__rotate_single(TtreeNode **target, int side)\<close>: takes \<^verbatim>\<open>*target\<close> and returns
  its new value with the store.
\<close>

definition uu_rotate_single :: "store \<Rightarrow> nat option \<Rightarrow> int \<Rightarrow> (nat option \<times> store) option" where
  "uu_rotate_single s0 target side =
     do {
       let opside = opposite_side side;
       pa \<leftarrow> target;
       p \<leftarrow> heap s0 pa;
       sp \<leftarrow> sides p side;
       sa \<leftarrow> sp;
       s1 \<leftarrow> modify sa (tnode_set_side (tnode_get_side p)) s0;
       sn \<leftarrow> heap s1 sa;
       x \<leftarrow> sides sn opside;
       s2 \<leftarrow> modify_opt pa (set_sides side x) s1;
       s3 \<leftarrow> modify_opt sa (set_sides opside (Some pa)) s2;
       s4 \<leftarrow> modify pa (tnode_set_side opside) s3;
       p4 \<leftarrow> heap s4 pa;
       s5 \<leftarrow> modify sa (\<lambda>n. n\<lparr>parent := parent p4\<rparr>) s4;
       s6 \<leftarrow> modify pa (\<lambda>n. n\<lparr>parent := Some sa\<rparr>) s5;
       p6 \<leftarrow> heap s6 pa;
       c \<leftarrow> sides p6 side;
       s7 \<leftarrow> (case c of None \<Rightarrow> Some s6
              | Some ca \<Rightarrow>
                  do {
                    s' \<leftarrow> modify ca (\<lambda>n. n\<lparr>parent := Some pa\<rparr>) s6;
                    modify ca (tnode_set_side side) s'
                  });
       sn7 \<leftarrow> heap s7 sa;
       s8 \<leftarrow> (case parent sn7 of None \<Rightarrow> Some s7
              | Some ga \<Rightarrow>
                  do {
                    g \<leftarrow> heap s7 ga;
                    gs \<leftarrow> sides g side;
                    if gs = Some pa then modify_opt ga (set_sides side (Some sa)) s7
                    else modify_opt ga (set_sides opside (Some sa)) s7
                  });
       Some (Some sa, s8)
     }"

text \<open>\<^verbatim>\<open>rotate_single\<close>. Its assertion is \<^verbatim>\<open>abs(n->bfc < 2) && (abs((*target)->bfc) < 2)\<close>:
  the first conjunct is the absolute value of a comparison.\<close>

definition rotate_single :: "store \<Rightarrow> nat option \<Rightarrow> int \<Rightarrow> (nat option \<times> store) option" where
  "rotate_single s0 target side =
     do {
       (target', s1) \<leftarrow> uu_rotate_single s0 target side;
       ta \<leftarrow> target';
       t \<leftarrow> heap s1 ta;
       np \<leftarrow> sides t (opposite_side side);
       na \<leftarrow> np;
       n \<leftarrow> heap s1 na;
       s2 \<leftarrow> (if is_internal_node n then
                do {
                  pp \<leftarrow> deref s1 (parent n);
                  b \<leftarrow> side2bfc side;
                  modify na (set_bfc (if bfc pp \<noteq> b then b else 0)) s1
                }
              else modify na (set_bfc (child_balance n)) s1);
       ob \<leftarrow> side2bfc (opposite_side side);
       s3 \<leftarrow> modify ta (\<lambda>x. set_bfc (bfc x + ob) x) s2;
       n3 \<leftarrow> heap s3 na;
       t3 \<leftarrow> heap s3 ta;
       _ \<leftarrow> TTREE_ASSERT (bfc n3 < 2 \<and> \<bar>bfc t3\<bar> < 2);
       Some (target', s3)
     }"

text \<open>\<^verbatim>\<open>rotate_double\<close>\<close>

definition rotate_double :: "store \<Rightarrow> nat option \<Rightarrow> int \<Rightarrow> (nat option \<times> store) option" where
  "rotate_double s0 target side =
     do {
       let opside = opposite_side side;
       t0 \<leftarrow> deref s0 target;
       n0 \<leftarrow> sides t0 side;
       (n1, s1) \<leftarrow> uu_rotate_single s0 n0 opside;
       nn \<leftarrow> deref s1 n1;
       cp \<leftarrow> sides nn side;
       ca \<leftarrow> cp;
       c \<leftarrow> heap s1 ca;
       s2 \<leftarrow> (if is_internal_node c then
                do {
                  ob \<leftarrow> side2bfc opside;
                  b \<leftarrow> side2bfc side;
                  modify ca (set_bfc (if bfc nn = ob then b else 0)) s1
                }
              else modify ca (set_bfc (child_balance c)) s1);
       nn2 \<leftarrow> deref s2 n1;
       cp2 \<leftarrow> sides nn2 side;
       c2 \<leftarrow> deref s2 cp2;
       _ \<leftarrow> TTREE_ASSERT (\<bar>bfc c2\<bar> < 2);
       let n2 = parent nn2;
       (target', s3) \<leftarrow> uu_rotate_single s2 target side;
       na \<leftarrow> n2;
       n \<leftarrow> heap s3 na;
       s4 \<leftarrow> (if is_internal_node n then
                do {
                  t \<leftarrow> deref s3 target';
                  b \<leftarrow> side2bfc side;
                  ob \<leftarrow> side2bfc opside;
                  modify na (set_bfc (if bfc t = b then ob else 0)) s3
                }
              else modify na (set_bfc (child_balance n)) s3);
       n4 \<leftarrow> heap s4 na;
       _ \<leftarrow> TTREE_ASSERT (\<bar>bfc n4\<bar> < 2);
       ta \<leftarrow> target';
       s5 \<leftarrow> modify ta (set_bfc 0) s4;
       Some (target', s5)
     }"

section \<open>Rebalancing\<close>

text \<open>
  \<^verbatim>\<open>memcpy(dst + d, src + so, sizeof(void *) * cnt)\<close> on key arrays. A negative count
  is a huge \<^verbatim>\<open>size_t\<close> and fails. Where source and destination are the same array
  and overlap, the cells are copied as through a temporary.
\<close>

definition memcpy_keys ::
  "(int \<Rightarrow> int) \<Rightarrow> int \<Rightarrow> (int \<Rightarrow> int) \<Rightarrow> int \<Rightarrow> int \<Rightarrow> (int \<Rightarrow> int) option" where
  "memcpy_keys dst d src so cnt =
     (if cnt < 0 then None
      else Some (\<lambda>i. if d \<le> i \<and> i < d + cnt then src (so + (i - d)) else dst i))"

text \<open>
  The end of the key migration in \<^verbatim>\<open>rebalance\<close>, from the label \<^verbatim>\<open>no_cursor\<close>:
  \<open>ta\<close> is \<^verbatim>\<open>*node\<close>, \<open>na\<close> is \<^verbatim>\<open>n\<close>.
\<close>

definition rebalance_no_cursor :: "store \<Rightarrow> nat \<Rightarrow> nat \<Rightarrow> int \<Rightarrow> int \<Rightarrow> store option" where
  "rebalance_no_cursor s0 ta na offs nkeys =
     do {
       n \<leftarrow> heap s0 na;
       t \<leftarrow> heap s0 ta;
       ks \<leftarrow> memcpy_keys (keys t) offs (keys n) (min_idx n) (nkeys - 1);
       s1 \<leftarrow> modify ta (\<lambda>x. x\<lparr>keys := ks\<rparr>) s0;
       s2 \<leftarrow> modify na (\<lambda>x. set_key (first_tnode_idx (tree s1)) (keys x (max_idx x)) x) s1;
       s3 \<leftarrow> modify na (set_max_idx (first_tnode_idx (tree s2))) s2;
       modify na (\<lambda>x. set_min_idx (max_idx x) x) s3
     }"

text \<open>
  The key migration of \<^verbatim>\<open>rebalance\<close> (the body of its second \<^verbatim>\<open>if\<close>), for the new
  subtree root at \<open>ta\<close>. The cursor pointer is \<open>None\<close> when null.
\<close>

definition rebalance_migrate ::
  "store \<Rightarrow> nat \<Rightarrow> ttree_cursor option \<Rightarrow> (store \<times> ttree_cursor option) option" where
  "rebalance_migrate s0 ta cursor =
     do {
       t \<leftarrow> heap s0 ta;
       r \<leftarrow> deref s0 (right t);
       l \<leftarrow> deref s0 (left t);
       if tnode_num_keys r \<ge> tnode_num_keys l then
         do {
           na \<leftarrow> right t;
           let nkeys = tnode_num_keys r;
           s1 \<leftarrow> modify ta (\<lambda>x. set_key 0 (keys x (min_idx x)) x) s0;
           s2 \<leftarrow> modify ta (set_min_idx 0) s1;
           s3 \<leftarrow> modify ta (set_max_idx (nkeys - 1)) s2;
           case cursor of
             None \<Rightarrow> do { s4 \<leftarrow> rebalance_no_cursor s3 ta na 1 nkeys; Some (s4, None) }
           | Some c \<Rightarrow>
               do {
                 n \<leftarrow> heap s3 na;
                 t3 \<leftarrow> heap s3 ta;
                 let c' = (if c_tnode c = Some na then
                             (if c_idx c < max_idx n then
                                c\<lparr>c_tnode := Some ta,
                                  c_idx := min_idx t3 + (c_idx c - min_idx n + 1)\<rparr>
                              else c\<lparr>c_idx := first_tnode_idx (tree s3)\<rparr>)
                           else c);
                 s4 \<leftarrow> rebalance_no_cursor s3 ta na 1 nkeys;
                 Some (s4, Some c')
               }
         }
       else
         do {
           na \<leftarrow> left t;
           let nkeys = tnode_num_keys l;
           let offs = keys_per_tnode (tree s0) - nkeys;
           s1 \<leftarrow> modify ta (\<lambda>x. set_key (keys_per_tnode (tree s0) - 1) (keys x (min_idx x)) x) s0;
           s2 \<leftarrow> modify ta (set_min_idx offs) s1;
           s3 \<leftarrow> modify ta (set_max_idx (keys_per_tnode (tree s2) - 1)) s2;
           case cursor of
             None \<Rightarrow> do { s4 \<leftarrow> rebalance_no_cursor s3 ta na offs nkeys; Some (s4, None) }
           | Some c \<Rightarrow>
               do {
                 n \<leftarrow> heap s3 na;
                 t3 \<leftarrow> heap s3 ta;
                 let c' = (if c_tnode c = Some na then
                             (if c_idx c > min_idx n then
                                c\<lparr>c_tnode := Some ta,
                                  c_idx := min_idx t3 + (c_idx c - min_idx n)\<rparr>
                              else c\<lparr>c_idx := first_tnode_idx (tree s3)\<rparr>)
                           else c);
                 s4 \<leftarrow> modify na (\<lambda>x. set_min_idx (min_idx x + 1) (set_max_idx (min_idx x) x)) s3;
                 s5 \<leftarrow> rebalance_no_cursor s4 ta na offs nkeys;
                 Some (s5, Some c')
               }
         }
     }"

text \<open>The condition of the migration: \<^verbatim>\<open>tnode_num_keys(*node) == 1 &&
  is_half_leaf((*node)->left) && is_half_leaf((*node)->right)\<close>, evaluated left to right.\<close>

definition rebalance_needs_migration :: "store \<Rightarrow> nat \<Rightarrow> bool option" where
  "rebalance_needs_migration s ta =
     do {
       t \<leftarrow> heap s ta;
       if tnode_num_keys t = 1 then
         do {
           l \<leftarrow> deref s (left t);
           if is_half_leaf l then
             do { r \<leftarrow> deref s (right t); Some (is_half_leaf r) }
           else Some False
         }
       else Some False
     }"

text \<open>The end of \<^verbatim>\<open>rebalance\<close>, from the label \<^verbatim>\<open>out\<close>.\<close>

definition rebalance_out :: "store \<Rightarrow> nat option \<Rightarrow> store option" where
  "rebalance_out s node =
     do {
       rt \<leftarrow> deref s (root (tree s));
       Some (if parent rt \<noteq> None then s\<lparr>tree := (tree s)\<lparr>root := node\<rparr>\<rparr> else s)
     }"

text \<open>\<^verbatim>\<open>rebalance(ttree, node, cursor)\<close>: returns the new \<^verbatim>\<open>*node\<close>, the store and
  the cursor.\<close>

definition rebalance ::
  "store \<Rightarrow> nat option \<Rightarrow> ttree_cursor option
     \<Rightarrow> (nat option \<times> store \<times> ttree_cursor option) option" where
  "rebalance s0 node cursor =
     do {
       nd \<leftarrow> deref s0 node;
       let lh = (if left_heavy nd then 1 else 0);
       hp \<leftarrow> sides nd (opposite_side lh);
       h \<leftarrow> deref s0 hp;
       let sum = \<bar>bfc nd + bfc h\<bar>;
       if sum \<ge> 2 then
         do {
           (node', s1) \<leftarrow> rotate_single s0 node (opposite_side lh);
           s2 \<leftarrow> rebalance_out s1 node';
           Some (node', s2, cursor)
         }
       else
         do {
           (node', s1) \<leftarrow> rotate_double s0 node (opposite_side lh);
           ta \<leftarrow> node';
           mig \<leftarrow> rebalance_needs_migration s1 ta;
           (s2, cursor') \<leftarrow> (if mig then rebalance_migrate s1 ta cursor else Some (s1, cursor));
           s3 \<leftarrow> rebalance_out s2 node';
           Some (node', s3, cursor')
         }
     }"

section \<open>Successor links\<close>

text \<open>
  \<^verbatim>\<open>for (node = n->parent->parent; node; node = node->parent)\<close> of \<^verbatim>\<open>__add_successor\<close>.
  A walk over parent links that never ends has no result.
\<close>

partial_function (option) add_successor_loop :: "store \<Rightarrow> nat option \<Rightarrow> nat \<Rightarrow> store option" where
  "add_successor_loop s node na =
     (case node of None \<Rightarrow> Some s
      | Some a \<Rightarrow>
          do {
            nd \<leftarrow> heap s a;
            n \<leftarrow> heap s na;
            if successor nd = parent n then modify a (\<lambda>x. x\<lparr>successor := Some na\<rparr>) s
            else add_successor_loop s (parent nd) na
          })"

definition uu_add_successor :: "store \<Rightarrow> nat \<Rightarrow> store option" where
  "uu_add_successor s0 na =
     do {
       n \<leftarrow> heap s0 na;
       if tnode_get_side n = TNODE_RIGHT then
         do {
           p \<leftarrow> deref s0 (parent n);
           s1 \<leftarrow> modify na (\<lambda>x. x\<lparr>successor := successor p\<rparr>) s0;
           n1 \<leftarrow> heap s1 na;
           pa \<leftarrow> parent n1;
           modify pa (\<lambda>x. x\<lparr>successor := Some na\<rparr>) s1
         }
       else
         do {
           s1 \<leftarrow> modify na (\<lambda>x. x\<lparr>successor := parent x\<rparr>) s0;
           n1 \<leftarrow> heap s1 na;
           p \<leftarrow> deref s1 (parent n1);
           if tnode_get_side p = TNODE_RIGHT then
             do { ga \<leftarrow> parent p; modify ga (\<lambda>x. x\<lparr>successor := Some na\<rparr>) s1 }
           else if tnode_get_side p = TNODE_LEFT then add_successor_loop s1 (parent p) na
           else Some s1
         }
     }"

text \<open>\<^verbatim>\<open>while ((node = node->parent))\<close> of \<^verbatim>\<open>__remove_successor\<close>; \<open>a\<close> is the
  current \<^verbatim>\<open>node\<close>.\<close>

partial_function (option) remove_successor_loop :: "store \<Rightarrow> nat \<Rightarrow> nat \<Rightarrow> store option" where
  "remove_successor_loop s a na =
     do {
       nd \<leftarrow> heap s a;
       case parent nd of None \<Rightarrow> Some s
       | Some pa \<Rightarrow>
           do {
             p \<leftarrow> heap s pa;
             n \<leftarrow> heap s na;
             if successor p = Some na then modify pa (\<lambda>x. x\<lparr>successor := parent n\<rparr>) s
             else remove_successor_loop s pa na
           }
     }"

definition uu_remove_successor :: "store \<Rightarrow> nat \<Rightarrow> store option" where
  "uu_remove_successor s0 na =
     do {
       n \<leftarrow> heap s0 na;
       if tnode_get_side n = TNODE_RIGHT then
         do { pa \<leftarrow> parent n; modify pa (\<lambda>x. x\<lparr>successor := successor n\<rparr>) s0 }
       else
         do {
           p \<leftarrow> deref s0 (parent n);
           if tnode_get_side p = TNODE_RIGHT then
             do { ga \<leftarrow> parent p; modify ga (\<lambda>x. x\<lparr>successor := parent n\<rparr>) s0 }
           else remove_successor_loop s0 na na
         }
     }"

section \<open>Fixing the balance after an insertion or a deletion\<close>

text \<open>
  \<^verbatim>\<open>while ((node = node->parent))\<close> of \<^verbatim>\<open>fixup_after_insertion\<close>; \<open>a\<close> is the
  current \<^verbatim>\<open>node\<close>, \<open>delta\<close> the current \<^verbatim>\<open>bfc_delta\<close>.
\<close>

partial_function (option) fixup_after_insertion_loop ::
  "store \<Rightarrow> nat \<Rightarrow> int option \<Rightarrow> ttree_cursor option \<Rightarrow> (store \<times> ttree_cursor option) option" where
  "fixup_after_insertion_loop s a delta cursor =
     do {
       nd \<leftarrow> heap s a;
       case parent nd of None \<Rightarrow> Some (s, cursor)
       | Some pa \<Rightarrow>
           do {
             d \<leftarrow> delta;
             s1 \<leftarrow> modify pa (\<lambda>x. set_bfc (bfc x + d) x) s;
             p \<leftarrow> heap s1 pa;
             if bfc p = 0 then Some (s1, cursor)
             else if subtree_is_unbalanced p then
               do { (_, s2, cursor') \<leftarrow> rebalance s1 (Some pa) cursor; Some (s2, cursor') }
             else fixup_after_insertion_loop s1 pa (get_bfc_delta p) cursor
           }
     }"

definition fixup_after_insertion ::
  "store \<Rightarrow> nat \<Rightarrow> ttree_cursor option \<Rightarrow> (store \<times> ttree_cursor option) option" where
  "fixup_after_insertion s0 na cursor =
     do {
       n \<leftarrow> heap s0 na;
       let bfc_delta = get_bfc_delta n;
       s1 \<leftarrow> uu_add_successor s0 na;
       fixup_after_insertion_loop s1 na bfc_delta cursor
     }"

text \<open>
  The same walk with a record of what it does, for the statement of its properties:
  \<open>Adjusted p b\<close> when the balance factor of the ancestor \<open>p\<close> has been updated to \<open>b\<close>,
  \<open>Rebalanced p\<close> when \<^verbatim>\<open>rebalance\<close> has been called on \<open>p\<close>.
\<close>

datatype fixup_event = Adjusted nat int | Rebalanced nat

partial_function (option) fixup_after_insertion_trace ::
  "store \<Rightarrow> nat \<Rightarrow> int option \<Rightarrow> ttree_cursor option
     \<Rightarrow> ((store \<times> ttree_cursor option) \<times> fixup_event list) option" where
  "fixup_after_insertion_trace s a delta cursor =
     do {
       nd \<leftarrow> heap s a;
       case parent nd of None \<Rightarrow> Some ((s, cursor), [])
       | Some pa \<Rightarrow>
           do {
             d \<leftarrow> delta;
             s1 \<leftarrow> modify pa (\<lambda>x. set_bfc (bfc x + d) x) s;
             p \<leftarrow> heap s1 pa;
             if bfc p = 0 then Some ((s1, cursor), [Adjusted pa (bfc p)])
             else if subtree_is_unbalanced p then
               do {
                 (_, s2, cursor') \<leftarrow> rebalance s1 (Some pa) cursor;
                 Some ((s2, cursor'), [Adjusted pa (bfc p), Rebalanced pa])
               }
             else
               do {
                 (r, evs) \<leftarrow> fixup_after_insertion_trace s1 pa (get_bfc_delta p) cursor;
                 Some (r, Adjusted pa (bfc p) # evs)
               }
           }
     }"




text \<open>\<^verbatim>\<open>while (node)\<close> of \<^verbatim>\<open>fixup_after_deletion\<close>.\<close>

partial_function (option) fixup_after_deletion_loop ::
  "store \<Rightarrow> nat option \<Rightarrow> int option \<Rightarrow> ttree_cursor option
     \<Rightarrow> (store \<times> ttree_cursor option) option" where
  "fixup_after_deletion_loop s node delta cursor =
     (case node of None \<Rightarrow> Some (s, cursor)
      | Some a \<Rightarrow>
          do {
            d \<leftarrow> delta;
            s1 \<leftarrow> modify a (\<lambda>x. set_bfc (bfc x - d) x) s;
            nd \<leftarrow> heap s1 a;
            if bfc nd + d = 0 then Some (s1, cursor)
            else
              (let delta' = get_bfc_delta nd in
               if subtree_is_unbalanced nd then
                 do {
                   (tmp, s2, cursor') \<leftarrow> rebalance s1 (Some a) cursor;
                   t \<leftarrow> deref s2 tmp;
                   if bfc t \<noteq> 0 then Some (s2, cursor')
                   else fixup_after_deletion_loop s2 (parent t) delta' cursor'
                 }
               else fixup_after_deletion_loop s1 (parent nd) delta' cursor)
          })"

definition fixup_after_deletion ::
  "store \<Rightarrow> nat \<Rightarrow> ttree_cursor option \<Rightarrow> (store \<times> ttree_cursor option) option" where
  "fixup_after_deletion s0 na cursor =
     do {
       n \<leftarrow> heap s0 na;
       let node = parent n;
       let bfc_delta = get_bfc_delta n;
       s1 \<leftarrow> uu_remove_successor s0 na;
       fixup_after_deletion_loop s1 node bfc_delta cursor
     }"

section \<open>Cursors and lookup\<close>

text \<open>
  \<^verbatim>\<open>ttree_cursor_open_on_node\<close>: returns the return value and the cursor. The cursor
  is zeroed first, so its old contents do not matter. The tree is the one of the store.
\<close>

definition ttree_cursor_open_on_node ::
  "store \<Rightarrow> nat option \<Rightarrow> tnode_seek \<Rightarrow> (int \<times> ttree_cursor) option" where
  "ttree_cursor_open_on_node s tn seek =
     (let c0 = \<lparr>c_ttree = Some (), c_tnode = tn, c_idx = 0, c_side = 0,
                 c_state = CURSOR_CLOSED\<rparr>
      in case tn of
           Some a \<Rightarrow>
             do {
               n \<leftarrow> heap s a;
               let c1 = (case seek of
                           TNODE_SEEK_START \<Rightarrow> c0\<lparr>c_idx := min_idx n\<rparr>
                         | TNODE_SEEK_END \<Rightarrow> c0\<lparr>c_idx := max_idx n\<rparr>);
               Some (0, c1\<lparr>c_state := CURSOR_OPENED, c_side := TNODE_BOUND\<rparr>)
             }
         | None \<Rightarrow>
             do {
               _ \<leftarrow> TTREE_ASSERT (root (tree s) = None);
               Some (0, c0\<lparr>c_idx := first_tnode_idx (tree s), c_state := CURSOR_PENDING,
                             c_side := TNODE_BOUND\<rparr>)
             })"

definition ttree_cursor_open :: "store \<Rightarrow> (int \<times> ttree_cursor) option" where
  "ttree_cursor_open s = ttree_cursor_open_on_node s (root (tree s)) TNODE_SEEK_START"

text \<open>The binary search of \<^verbatim>\<open>lookup_inside_tnode\<close>: returns the item and
  \<^verbatim>\<open>*out_idx\<close>.\<close>

function lookup_inside_loop ::
  "ttree \<Rightarrow> (int \<Rightarrow> int \<Rightarrow> int) \<Rightarrow> tnode \<Rightarrow> int \<Rightarrow> int \<Rightarrow> int \<Rightarrow> int \<times> int" where
  "lookup_inside_loop t cmp n key floor ceil =
     (if floor \<le> ceil then
        (if cmp key (keys n (drop_bit 1 (floor + ceil))) < 0
         then lookup_inside_loop t cmp n key floor (drop_bit 1 (floor + ceil) - 1)
         else if cmp key (keys n (drop_bit 1 (floor + ceil))) > 0
         then lookup_inside_loop t cmp n key (drop_bit 1 (floor + ceil) + 1) ceil
         else (ttree_key2item t (keys n (drop_bit 1 (floor + ceil))), drop_bit 1 (floor + ceil)))
      else (NULL, floor))"
  by pat_completeness auto
termination
  by (relation "measure (\<lambda>(t, cmp, n, key, floor, ceil). nat (ceil + 1 - floor))")
     (auto simp: drop_bit_eq_div)

declare lookup_inside_loop.simps [simp del]

definition lookup_inside_tnode ::
  "ttree \<Rightarrow> tnode \<Rightarrow> int \<Rightarrow> int \<Rightarrow> int \<Rightarrow> (int \<times> int) option" where
  "lookup_inside_tnode t n key low_bound high_bound =
     do {
       _ \<leftarrow> TTREE_ASSERT (low_bound \<ge> 0 \<and> high_bound < keys_per_tnode t);
       cmp \<leftarrow> cmp_func t;
       Some (lookup_inside_loop t cmp n key low_bound high_bound)
     }"

text \<open>
  The descent \<^verbatim>\<open>while (n)\<close> of \<^verbatim>\<open>ttree_lookup\<close>. The result is \<open>Inl a\<close> when the
  key equals the minimum key of the node at \<open>a\<close> (the \<^verbatim>\<open>goto out\<close> inside the loop),
  and otherwise \<open>Inr\<close> of \<^verbatim>\<open>target\<close>, \<^verbatim>\<open>marked_tn\<close>, \<^verbatim>\<open>side\<close> and \<^verbatim>\<open>cmp_res\<close>
  at the end of the loop.
\<close>

partial_function (option) ttree_lookup_loop ::
  "store \<Rightarrow> (int \<Rightarrow> int \<Rightarrow> int) \<Rightarrow> int \<Rightarrow> nat option \<Rightarrow> nat option \<Rightarrow> nat option \<Rightarrow> int \<Rightarrow> int
     \<Rightarrow> (nat + nat option \<times> nat option \<times> int \<times> int) option" where
  "ttree_lookup_loop s cmp key n target marked_tn side cmp_res =
     (case n of None \<Rightarrow> Some (Inr (target, marked_tn, side, cmp_res))
      | Some a \<Rightarrow>
          do {
            nd \<leftarrow> heap s a;
            let c = cmp key (tnode_key_min nd);
            if c < 0 then
              do { nx \<leftarrow> sides nd TNODE_LEFT;
                   ttree_lookup_loop s cmp key nx (Some a) marked_tn TNODE_LEFT c }
            else if c > 0 then
              do { nx \<leftarrow> sides nd TNODE_RIGHT;
                   ttree_lookup_loop s cmp key nx (Some a) (Some a) TNODE_RIGHT c }
            else Some (Inl a)
          })"

text \<open>
  \<^verbatim>\<open>ttree_lookup\<close> after the descent found no node whose minimum equals the key:
  returns \<^verbatim>\<open>item\<close>, \<^verbatim>\<open>target\<close>, \<^verbatim>\<open>side\<close>, \<^verbatim>\<open>idx\<close> and \<^verbatim>\<open>st\<close> at the label
  \<^verbatim>\<open>out\<close>.
\<close>

definition ttree_lookup_place ::
  "store \<Rightarrow> (int \<Rightarrow> int \<Rightarrow> int) \<Rightarrow> int \<Rightarrow> nat option \<Rightarrow> nat option \<Rightarrow> int \<Rightarrow> int
     \<Rightarrow> (int \<times> nat option \<times> int \<times> int \<times> ttree_cursor_state) option" where
  "ttree_lookup_place s cmp key target marked_tn side cmp_res =
     (let t = tree s;
          unbound =
            do {
              tg \<leftarrow> deref s target;
              if \<not> tnode_is_full t tg then
                Some (NULL, target, TNODE_BOUND,
                      (if marked_tn \<noteq> target \<or> cmp_res < 0 then min_idx tg else max_idx tg + 1),
                      CURSOR_PENDING)
              else Some (NULL, target, side, first_tnode_idx t, CURSOR_PENDING)
            }
      in case marked_tn of
           None \<Rightarrow> unbound
         | Some ma \<Rightarrow>
             do {
               m \<leftarrow> heap s ma;
               let c = cmp key (tnode_key_max m);
               if c \<le> 0 then
                 (if c = 0 then
                    Some (ttree_key2item t (tnode_key_max m), marked_tn, TNODE_BOUND, max_idx m,
                          CURSOR_OPENED)
                  else
                    do {
                      (item, idx) \<leftarrow> lookup_inside_tnode t m key (min_idx m + 1) (max_idx m - 1);
                      Some (item, marked_tn, TNODE_BOUND, idx,
                            if item \<noteq> NULL then CURSOR_OPENED else CURSOR_PENDING)
                    })
               else unbound
             })"

text \<open>
  \<^verbatim>\<open>ttree_lookup(ttree, key, cursor)\<close>: the cursor pointer is \<open>None\<close> when null; the
  result is the item and the cursor afterwards.
\<close>

definition ttree_lookup ::
  "store \<Rightarrow> int \<Rightarrow> ttree_cursor option \<Rightarrow> (int \<times> ttree_cursor option) option" where
  "ttree_lookup s key cursor =
     do {
       let t = tree s;
       (item, target, side, idx, st) \<leftarrow>
         (case root t of
            None \<Rightarrow> Some (NULL, None, TNODE_BOUND, first_tnode_idx t, CURSOR_PENDING)
          | Some r \<Rightarrow>
              do {
                cmp \<leftarrow> cmp_func t;
                res \<leftarrow> ttree_lookup_loop s cmp key (Some r) (Some r) None TNODE_BOUND 0;
                case res of
                  Inl a \<Rightarrow>
                    do {
                      n \<leftarrow> heap s a;
                      Some (ttree_key2item t (tnode_key_min n), Some a, TNODE_BOUND, min_idx n,
                            CURSOR_OPENED)
                    }
                | Inr (target, marked_tn, side, cmp_res) \<Rightarrow>
                    ttree_lookup_place s cmp key target marked_tn side cmp_res
              });
       case cursor of
         None \<Rightarrow> Some (item, None)
       | Some _ \<Rightarrow>
           do {
             (_, c) \<leftarrow> ttree_cursor_open_on_node s target TNODE_SEEK_START;
             Some (item, Some (c\<lparr>c_side := side, c_idx := idx, c_state := st\<rparr>))
           }
     }"

section \<open>Insertion\<close>

text \<open>The end of the bound insertion in \<^verbatim>\<open>ttree_insert_at_cursor\<close>:
  \<^verbatim>\<open>increase_tnode_window(ttree, at_node, &cursor->idx); at_node->keys[cursor->idx] = key;
  cursor->state = CURSOR_OPENED;\<close>\<close>

definition insert_bound ::
  "store \<Rightarrow> nat \<Rightarrow> ttree_cursor \<Rightarrow> int \<Rightarrow> (store \<times> ttree_cursor) option" where
  "insert_bound s0 at cursor key =
     do {
       n \<leftarrow> heap s0 at;
       let (n1, idx1) = increase_tnode_window (tree s0) n (c_idx cursor);
       s1 \<leftarrow> modify at (\<lambda>_. n1) s0;
       s2 \<leftarrow> modify at (set_key idx1 key) s1;
       Some (s2, cursor\<lparr>c_idx := idx1, c_state := CURSOR_OPENED\<rparr>)
     }"

text \<open>
  \<^verbatim>\<open>ttree_insert_at_cursor\<close> from the label \<^verbatim>\<open>create_new_node\<close> up to the call of
  \<^verbatim>\<open>fixup_after_insertion\<close>: the new leaf is allocated, filled and linked below
  \<^verbatim>\<open>at_node\<close>. Returns the leaf, the store and the cursor.
\<close>

definition insert_new_leaf ::
  "store \<Rightarrow> nat option \<Rightarrow> ttree_cursor \<Rightarrow> int \<Rightarrow> (nat \<times> store \<times> ttree_cursor) option" where
  "insert_new_leaf s0 at_node cursor key =
     do {
       let (na, s1) = allocate_ttree_node s0;
       s2 \<leftarrow> modify na (set_key (c_idx cursor) key) s1;
       s3 \<leftarrow> modify na (set_max_idx (c_idx cursor)) s2;
       s4 \<leftarrow> modify na (\<lambda>x. set_min_idx (max_idx x) x) s3;
       s5 \<leftarrow> modify na (\<lambda>x. x\<lparr>parent := at_node\<rparr>) s4;
       at \<leftarrow> at_node;
       s6 \<leftarrow> modify_opt at (set_sides (c_side cursor) (Some na)) s5;
       s7 \<leftarrow> modify na (tnode_set_side (c_side cursor)) s6;
       Some (na, s7, cursor\<lparr>c_tnode := Some na, c_state := CURSOR_OPENED\<rparr>)
     }"

text \<open>\<^verbatim>\<open>ttree_insert_at_cursor\<close> from the label \<^verbatim>\<open>create_new_node\<close>.\<close>

definition insert_create_new_node ::
  "store \<Rightarrow> nat option \<Rightarrow> ttree_cursor \<Rightarrow> int \<Rightarrow> (store \<times> ttree_cursor) option" where
  "insert_create_new_node s0 at_node cursor key =
     do {
       (na, s7, cursor1) \<leftarrow> insert_new_leaf s0 at_node cursor key;
       (s8, cursor2) \<leftarrow> fixup_after_insertion s7 na (Some cursor1);
       c \<leftarrow> cursor2;
       Some (s8, c)
     }"

text \<open>
  The start of the branch of \<^verbatim>\<open>ttree_insert_at_cursor\<close> for a full node \<open>n\<close>:
  \<^verbatim>\<open>tmp = n->keys[n->max_idx--]; increase_tnode_window(ttree, n, &cursor->idx);
  n->keys[cursor->idx] = key;\<close>. Returns the node, the new \<^verbatim>\<open>cursor->idx\<close> and
  \<^verbatim>\<open>tmp\<close>, the displaced maximum.
\<close>

definition insert_displace_max :: "ttree \<Rightarrow> tnode \<Rightarrow> int \<Rightarrow> int \<Rightarrow> tnode \<times> int \<times> int" where
  "insert_displace_max t n idx key =
     (let tmp = keys n (max_idx n);
          n1 = set_max_idx (max_idx n - 1) n;
          (n2, idx1) = increase_tnode_window t n1 idx
      in (set_key idx1 key n2, idx1, tmp))"

text \<open>
  \<^verbatim>\<open>ttree_insert_at_cursor\<close>: returns the store and the caller's cursor. In the branch
  for a full node the function continues on a local copy of the cursor
  (\<^verbatim>\<open>cursor = &tmp_cursor\<close>), so what it does to the copy is not returned.
\<close>

definition ttree_insert_at_cursor ::
  "store \<Rightarrow> ttree_cursor \<Rightarrow> int \<Rightarrow> (store \<times> ttree_cursor) option" where
  "ttree_insert_at_cursor s0 cursor item =
     do {
       _ \<leftarrow> TTREE_ASSERT (c_ttree cursor \<noteq> None);
       let t = tree s0;
       let key = ttree_item2key t item;
       case root t of
         None \<Rightarrow>
           do {
             let (a, s1) = allocate_ttree_node s0;
             s2 \<leftarrow> modify a (set_key (first_tnode_idx t) key) s1;
             s3 \<leftarrow> modify a (set_max_idx (first_tnode_idx t)) s2;
             s4 \<leftarrow> modify a (\<lambda>x. set_min_idx (max_idx x) x) s3;
             let s5 = s4\<lparr>tree := (tree s4)\<lparr>root := Some a\<rparr>\<rparr>;
             s6 \<leftarrow> modify a (tnode_set_side TNODE_ROOT) s5;
             (_, c) \<leftarrow> ttree_cursor_open_on_node s6 (Some a) TNODE_SEEK_START;
             Some (s6, c)
           }
       | Some _ \<Rightarrow>
           if c_side cursor = TNODE_BOUND then
             do {
               na \<leftarrow> c_tnode cursor;
               n \<leftarrow> heap s0 na;
               if tnode_is_full t n then
                 do {
                   let (n3, idx1, tmp) = insert_displace_max t n (c_idx cursor) key;
                   s3 \<leftarrow> modify na (\<lambda>_. n3) s0;
                   let cursor1 = cursor\<lparr>c_idx := idx1\<rparr>;
                   n3 \<leftarrow> heap s3 na;
                   if successor n3 = None \<or> right n3 = None then
                     do {
                       (s4, _) \<leftarrow> insert_create_new_node s3 (Some na)
                                    (cursor1\<lparr>c_side := TNODE_RIGHT, c_idx := first_tnode_idx t\<rparr>) tmp;
                       Some (s4, cursor1)
                     }
                   else
                     do {
                       at \<leftarrow> successor n3;
                       atn \<leftarrow> heap s3 at;
                       if tnode_is_full t atn then
                         do {
                           (s4, _) \<leftarrow> insert_create_new_node s3 (Some at)
                                        (cursor1\<lparr>c_side := TNODE_LEFT, c_idx := first_tnode_idx t\<rparr>)
                                        tmp;
                           Some (s4, cursor1)
                         }
                       else
                         do {
                           (s4, _) \<leftarrow> insert_bound s3 at
                                        (cursor1\<lparr>c_idx := min_idx atn, c_tnode := Some at\<rparr>) tmp;
                           Some (s4, cursor1)
                         }
                     }
                 }
               else insert_bound s0 na cursor key
             }
           else insert_create_new_node s0 (c_tnode cursor) cursor key
     }"

text \<open>\<^verbatim>\<open>ttree_insert\<close>: returns the return value and the store.\<close>

definition ttree_insert :: "store \<Rightarrow> int \<Rightarrow> (int \<times> store) option" where
  "ttree_insert s item =
     do {
       (found, cursor) \<leftarrow> ttree_lookup s (ttree_item2key (tree s) item)
                            (Some \<lparr>c_ttree = None, c_tnode = None, c_idx = 0, c_side = 0,
                                   c_state = CURSOR_CLOSED\<rparr>);
       if found \<noteq> NULL \<and> keys_are_unique (tree s) then Some (- 1, s)
       else
         do {
           c \<leftarrow> cursor;
           (s', _) \<leftarrow> ttree_insert_at_cursor s c item;
           Some (0, s')
         }
     }"

section \<open>Deletion\<close>

text \<open>
  The branch of \<^verbatim>\<open>ttree_delete_at_cursor\<close> for an internal node at \<open>ta\<close>: one key
  is moved in from the successor. Returns the store, the cursor and the successor.
\<close>

definition delete_borrow ::
  "store \<Rightarrow> nat \<Rightarrow> ttree_cursor \<Rightarrow> (store \<times> ttree_cursor \<times> nat) option" where
  "delete_borrow s0 ta cursor =
     do {
       tn \<leftarrow> heap s0 ta;
       na \<leftarrow> successor tn;
       let (tn1, idx) = increase_tnode_window (tree s0) tn (max_idx tn + 1);
       s1 \<leftarrow> modify ta (\<lambda>_. tn1) s0;
       n \<leftarrow> heap s1 na;
       let k = keys n (min_idx n);
       s2 \<leftarrow> modify na (\<lambda>x. set_min_idx (min_idx x + 1) x) s1;
       s3 \<leftarrow> modify ta (set_key idx k) s2;
       tn3 \<leftarrow> heap s3 ta;
       let cursor1 = (if c_idx cursor > max_idx tn3 then cursor\<lparr>c_idx := max_idx tn3\<rparr>
                      else cursor);
       Some (s3, cursor1, na)
     }"

text \<open>
  \<^verbatim>\<open>for (i = tnode->max_idx; i >= tnode->min_idx; i--) tnode->keys[i - diff] = tnode->keys[i];\<close>
\<close>

function merge_left_loop :: "(int \<Rightarrow> int) \<Rightarrow> int \<Rightarrow> int \<Rightarrow> int \<Rightarrow> (int \<Rightarrow> int)" where
  "merge_left_loop ks i mn diff =
     (if i \<ge> mn then merge_left_loop (ks(i - diff := ks i)) (i - 1) mn diff else ks)"
  by pat_completeness auto
termination
  by (relation "measure (\<lambda>(ks, i, mn, diff). nat (i + 1 - mn))") auto

declare merge_left_loop.simps [simp del]

text \<open>
  The branch of \<^verbatim>\<open>ttree_delete_at_cursor\<close> for a node at \<open>ta\<close> that is not a leaf:
  the merge with its child. The result is \<open>Inl\<close> when the keys do not fit (the function
  returns there) and \<open>Inr\<close> of the store, the cursor and the child otherwise.
\<close>

definition delete_merge ::
  "store \<Rightarrow> nat \<Rightarrow> ttree_cursor \<Rightarrow> (unit + store \<times> ttree_cursor \<times> nat) option" where
  "delete_merge s0 ta cursor =
     do {
       tn \<leftarrow> heap s0 ta;
       na \<leftarrow> (if left tn \<noteq> None then left tn else right tn);
       n \<leftarrow> heap s0 na;
       let M = keys_per_tnode (tree s0);
       let items = tnode_num_keys n;
       if items > M - tnode_num_keys tn then Some (Inl ())
       else
         do {
           (s3, cursor3) \<leftarrow>
             (if tnode_get_side n = TNODE_RIGHT then
                do {
                  let diff = (M - max_idx tn - items) - 1;
                  (s1, cursor1) \<leftarrow>
                    (if diff < 0 then
                       do {
                         ks \<leftarrow> memcpy_keys (keys tn) (min_idx tn + diff) (keys tn) (min_idx tn)
                                 (tnode_num_keys tn);
                         sa \<leftarrow> modify ta (\<lambda>x. x\<lparr>keys := ks\<rparr>) s0;
                         sb \<leftarrow> modify ta (\<lambda>x. set_min_idx (min_idx x + diff) x) sa;
                         sc \<leftarrow> modify ta (\<lambda>x. set_max_idx (max_idx x + diff) x) sb;
                         Some (sc, if c_tnode cursor = Some ta
                                   then cursor\<lparr>c_idx := c_idx cursor + diff\<rparr> else cursor)
                       }
                     else Some (s0, cursor));
                  t1 \<leftarrow> heap s1 ta;
                  n1 \<leftarrow> heap s1 na;
                  ks \<leftarrow> memcpy_keys (keys t1) (max_idx t1 + 1) (keys n1) (min_idx n1) items;
                  s2 \<leftarrow> modify ta (\<lambda>x. x\<lparr>keys := ks\<rparr>) s1;
                  s3 \<leftarrow> modify ta (\<lambda>x. set_max_idx (max_idx x + items) x) s2;
                  Some (s3, cursor1)
                }
              else
                do {
                  let diff = min_idx tn - items;
                  (s1, cursor1) \<leftarrow>
                    (if diff < 0 then
                       do {
                         sa \<leftarrow> modify ta (\<lambda>x. x\<lparr>keys := merge_left_loop (keys x) (max_idx x)
                                                            (min_idx x) diff\<rparr>) s0;
                         sb \<leftarrow> modify ta (\<lambda>x. set_min_idx (min_idx x - diff) x) sa;
                         sc \<leftarrow> modify ta (\<lambda>x. set_max_idx (max_idx x - diff) x) sb;
                         Some (sc, if c_tnode cursor = Some ta
                                   then cursor\<lparr>c_idx := c_idx cursor - diff\<rparr> else cursor)
                       }
                     else Some (s0, cursor));
                  t1 \<leftarrow> heap s1 ta;
                  n1 \<leftarrow> heap s1 na;
                  ks \<leftarrow> memcpy_keys (keys t1) (min_idx t1 - items) (keys n1) (min_idx n1) items;
                  s2 \<leftarrow> modify ta (\<lambda>x. x\<lparr>keys := ks\<rparr>) s1;
                  s3 \<leftarrow> modify ta (\<lambda>x. set_min_idx (min_idx x - items) x) s2;
                  Some (s3, cursor1)
                });
           s4 \<leftarrow> modify na (set_min_idx 1) s3;
           s5 \<leftarrow> modify na (set_max_idx 0) s4;
           Some (Inr (s5, cursor3, na))
         }
     }"

text \<open>
  The end of \<^verbatim>\<open>ttree_delete_at_cursor\<close>, from \<^verbatim>\<open>if (!tnode_is_empty(tnode))\<close>, for
  the node at \<open>ta\<close>.
\<close>

definition delete_remove :: "store \<Rightarrow> nat \<Rightarrow> store option" where
  "delete_remove s0 ta =
     do {
       tn \<leftarrow> heap s0 ta;
       if \<not> tnode_is_empty tn then Some s0
       else
         (case parent tn of
            None \<Rightarrow> Some (free_node ta (s0\<lparr>tree := (tree s0)\<lparr>root := None\<rparr>\<rparr>))
          | Some pa \<Rightarrow>
              do {
                s1 \<leftarrow> modify_opt pa (set_sides (tnode_get_side tn) None) s0;
                (s2, _) \<leftarrow> fixup_after_deletion s1 ta None;
                Some (free_node ta s2)
              })
     }"

text \<open>\<^verbatim>\<open>ttree_delete_at_cursor\<close>: returns the removed item, the store and the
  cursor.\<close>

definition ttree_delete_at_cursor ::
  "store \<Rightarrow> ttree_cursor \<Rightarrow> (int \<times> store \<times> ttree_cursor) option" where
  "ttree_delete_at_cursor s0 cursor =
     do {
       _ \<leftarrow> TTREE_ASSERT (c_ttree cursor \<noteq> None);
       _ \<leftarrow> TTREE_ASSERT (c_state cursor = CURSOR_OPENED);
       let t = tree s0;
       ta \<leftarrow> c_tnode cursor;
       tn \<leftarrow> heap s0 ta;
       let ret = ttree_key2item t (keys tn (c_idx cursor));
       let (tn1, idx1) = decrease_tnode_window t tn (c_idx cursor);
       s1 \<leftarrow> modify ta (\<lambda>_. tn1) s0;
       let cursor1 = cursor\<lparr>c_idx := idx1, c_state := CURSOR_CLOSED\<rparr>;
       let cursor2 = (if c_idx cursor1 > max_idx tn1 then cursor1\<lparr>c_idx := max_idx tn1\<rparr>
                      else cursor1);
       if tnode_num_keys tn1 > min_tnode_entries t then Some (ret, s1, cursor2)
       else
         do {
           r1 \<leftarrow> (if is_internal_node tn1 then
                    do {
                      (s2, cursor3, na) \<leftarrow> delete_borrow s1 ta cursor2;
                      n \<leftarrow> heap s2 na;
                      if \<not> tnode_is_empty n \<and> is_leaf_node n then Some (Inl (s2, cursor3))
                      else Some (Inr (s2, cursor3, na))
                    }
                  else Some (Inr (s1, cursor2, ta)));
           case r1 of
             Inl (s2, cursor3) \<Rightarrow> Some (ret, s2, cursor3)
           | Inr (s2, cursor3, tb) \<Rightarrow>
               do {
                 tnb \<leftarrow> heap s2 tb;
                 r2 \<leftarrow> (if \<not> is_leaf_node tnb then
                          do {
                            m \<leftarrow> delete_merge s2 tb cursor3;
                            case m of
                              Inl _ \<Rightarrow> Some (Inl (s2, cursor3))
                            | Inr x \<Rightarrow> Some (Inr x)
                          }
                        else Some (Inr (s2, cursor3, tb)));
                 case r2 of
                   Inl (s3, cursor4) \<Rightarrow> Some (ret, s3, cursor4)
                 | Inr (s3, cursor4, tc) \<Rightarrow>
                     do { s4 \<leftarrow> delete_remove s3 tc; Some (ret, s4, cursor4) }
               }
         }
     }"

text \<open>\<^verbatim>\<open>ttree_delete\<close>: returns the removed item (\<open>NULL\<close> when the key is not found)
  and the store.\<close>

definition ttree_delete :: "store \<Rightarrow> int \<Rightarrow> (int \<times> store) option" where
  "ttree_delete s key =
     do {
       (ret, cursor) \<leftarrow> ttree_lookup s key
                          (Some \<lparr>c_ttree = None, c_tnode = None, c_idx = 0, c_side = 0,
                                 c_state = CURSOR_CLOSED\<rparr>);
       if ret = NULL then Some (ret, s)
       else
         do {
           c \<leftarrow> cursor;
           (_, s', _) \<leftarrow> ttree_delete_at_cursor s c;
           Some (ret, s')
         }
     }"

section \<open>Replacement\<close>

text \<open>
  \<^verbatim>\<open>ttree_replace\<close>. Its cursor is a local variable that is never initialised:
  \<open>cursor_addr\<close> is its address and \<open>cursor0\<close> its contents. The function calls
  \<^verbatim>\<open>ttree_lookup(ttree, &cursor, key)\<close>: the address of the local cursor is the key
  that is looked up, and \<^verbatim>\<open>key\<close> is the cursor pointer, so the cursor that the lookup
  computes is written to the caller's key (outside the store of this model) and the
  local one stays as it was.
\<close>

definition ttree_replace ::
  "store \<Rightarrow> int \<Rightarrow> ttree_cursor \<Rightarrow> int \<Rightarrow> int \<Rightarrow> (int \<times> store) option" where
  "ttree_replace s cursor_addr cursor0 key new_item =
     do {
       (found, _) \<leftarrow> ttree_lookup s cursor_addr
                       (if key = NULL then None else Some cursor0);
       if found = NULL then Some (- 1, s)
       else
         do {
           a \<leftarrow> c_tnode cursor0;
           s' \<leftarrow> modify a (set_key (c_idx cursor0) (ttree_item2key (tree s) new_item)) s;
           Some (0, s')
         }
     }"

section \<open>Traversal along the successor links\<close>

text \<open>\<^verbatim>\<open>__tnode_sidemost\<close>\<close>

partial_function (option) tnode_sidemost_loop :: "store \<Rightarrow> nat \<Rightarrow> int \<Rightarrow> nat option" where
  "tnode_sidemost_loop s a side =
     do {
       n \<leftarrow> heap s a;
       c \<leftarrow> sides n side;
       case c of None \<Rightarrow> Some a | Some ca \<Rightarrow> tnode_sidemost_loop s ca side
     }"

definition uu_tnode_sidemost :: "store \<Rightarrow> nat option \<Rightarrow> int \<Rightarrow> nat option option" where
  "uu_tnode_sidemost s tn side =
     (case tn of None \<Rightarrow> Some None
      | Some a \<Rightarrow> map_option Some (tnode_sidemost_loop s a side))"

definition ttree_node_leftmost :: "store \<Rightarrow> nat option \<Rightarrow> nat option option" where
  "ttree_node_leftmost s tn = uu_tnode_sidemost s tn TNODE_LEFT"

text \<open>The keys in the window of a node, in index order (\<^verbatim>\<open>tnode_for_each_index\<close>).\<close>

definition tnode_keys :: "tnode \<Rightarrow> int list" where
  "tnode_keys n = map (keys n) [min_idx n..max_idx n]"

text \<open>
  The keys met from the node \<open>tn\<close> along the successor links, node by node, which is the
  order in which \<^verbatim>\<open>ttree_destroy\<close> and \<^verbatim>\<open>ttree_cursor_next\<close> go through the tree.
\<close>

partial_function (option) successor_chain :: "store \<Rightarrow> nat option \<Rightarrow> int list list option" where
  "successor_chain s tn =
     (case tn of None \<Rightarrow> Some []
      | Some a \<Rightarrow>
          do {
            n \<leftarrow> heap s a;
            rest \<leftarrow> successor_chain s (successor n);
            Some (tnode_keys n # rest)
          })"

definition ttree_chain :: "store \<Rightarrow> int list list option" where
  "ttree_chain s =
     do {
       lm \<leftarrow> ttree_node_leftmost s (root (tree s));
       successor_chain s lm
     }"

definition ttree_keys :: "store \<Rightarrow> int list option" where
  "ttree_keys s = map_option concat (ttree_chain s)"

text \<open>The recursion equations of the walks are their code equations.\<close>

declare add_successor_loop.simps [code] remove_successor_loop.simps [code]
  fixup_after_insertion_loop.simps [code] fixup_after_deletion_loop.simps [code]
  ttree_lookup_loop.simps [code] tnode_sidemost_loop.simps [code]
  successor_chain.simps [code] fixup_after_insertion_trace.simps [code]

section \<open>Comparators and stores used as examples\<close>

text \<open>A comparator that orders key pointers by their address, as the tests' comparator
  orders the integers the keys point to.\<close>

definition cmp_int :: "int \<Rightarrow> int \<Rightarrow> int" where
  "cmp_int a b = (if a < b then - 1 else if a > b then 1 else 0)"

text \<open>A comparator for keys whose value is a tenth of their address, so that different
  key pointers can hold equal keys.\<close>

definition cmp_tens :: "int \<Rightarrow> int \<Rightarrow> int" where
  "cmp_tens a b = cmp_int (a div 10) (b div 10)"

text \<open>The handle that a successful \<^verbatim>\<open>__ttree_init\<close> leaves, with key offset \<open>0\<close>.\<close>

definition new_ttree :: "int \<Rightarrow> bool \<Rightarrow> (int \<Rightarrow> int \<Rightarrow> int) \<Rightarrow> ttree" where
  "new_ttree M u c =
     \<lparr>root = None, cmp_func = Some c, key_offs = 0, keys_per_tnode = M, keys_are_unique = u\<rparr>"

text \<open>A store with no node allocated.\<close>

definition new_store :: "ttree \<Rightarrow> (int \<Rightarrow> int) \<Rightarrow> store" where
  "new_store t u = \<lparr>tree = t, heap = (\<lambda>_. None), brk = 0, uninit = u\<rparr>"

text \<open>A key array holding the given list from index \<open>0\<close>.\<close>

definition keys_of_list :: "int list \<Rightarrow> int \<Rightarrow> int" where
  "keys_of_list xs i = (if 0 \<le> i \<and> i < int (length xs) then xs ! nat i else 0)"

text \<open>A node without links.\<close>

definition leaf_node :: "int \<Rightarrow> int \<Rightarrow> (int \<Rightarrow> int) \<Rightarrow> tnode" where
  "leaf_node mn mx ks =
     \<lparr>parent = None, successor = None, left = None, right = None,
      min_idx = mn, max_idx = mx, bfc = 0, node_side = 0, keys = ks\<rparr>"

text \<open>A tree of one root leaf at address \<open>0\<close>.\<close>

definition one_leaf_store :: "ttree \<Rightarrow> tnode \<Rightarrow> store" where
  "one_leaf_store t n =
     \<lparr>tree = t\<lparr>root := Some 0\<rparr>, heap = (\<lambda>_. None)(0 \<mapsto> n), brk = 1, uninit = keys_of_list []\<rparr>"

definition cursor_at :: "nat \<Rightarrow> int \<Rightarrow> ttree_cursor_state \<Rightarrow> ttree_cursor" where
  "cursor_at a i st =
     \<lparr>c_ttree = Some (), c_tnode = Some a, c_idx = i, c_side = TNODE_BOUND, c_state = st\<rparr>"



text \<open>
  A tree of capacity 4 built through \<^verbatim>\<open>ttree_insert\<close> and \<^verbatim>\<open>ttree_delete\<close>: its root
  \<open>100, 110, 120\<close> has room for one key, and the left child \<open>10, 20, 30, 40\<close> of the
  root is a full leaf whose successor is the root.
\<close>

definition displaced_max_example :: "store option" where
  "displaced_max_example =
     do {
       (_, s1) \<leftarrow> ttree_insert (new_store (new_ttree 4 True cmp_int) (keys_of_list [])) 100;
       (_, s2) \<leftarrow> ttree_insert s1 110;
       (_, s3) \<leftarrow> ttree_insert s2 120;
       (_, s4) \<leftarrow> ttree_insert s3 130;
       (_, s5) \<leftarrow> ttree_insert s4 10;
       (_, s6) \<leftarrow> ttree_insert s5 20;
       (_, s7) \<leftarrow> ttree_insert s6 30;
       (_, s8) \<leftarrow> ttree_insert s7 40;
       (_, s9) \<leftarrow> ttree_delete s8 130;
       Some s9
     }"



section \<open>Lemmas on the window loops and the bit-fields\<close>

lemma bf12_id: "- 2048 \<le> v \<Longrightarrow> v < 2048 \<Longrightarrow> signed_take_bit 11 v = (v::int)"
  by (simp add: signed_take_bit_int_eq_self)

lemma increase_right_loop_eq:
  "increase_right_loop ks i idx = (\<lambda>j. if idx \<le> j \<and> j \<le> i then ks (j - 1) else ks j)"
proof (induction ks i idx rule: increase_right_loop.induct)
  case (1 ks i idx)
  show ?case
  proof (cases "i > idx - 1")
    case True
    then show ?thesis
      by (subst increase_right_loop.simps) (auto simp: 1 fun_eq_iff)
  next
    case False
    then show ?thesis
      by (subst increase_right_loop.simps) (auto simp: fun_eq_iff)
  qed
qed

lemma increase_left_loop_eq:
  "increase_left_loop ks i idx = (\<lambda>j. if i \<le> j \<and> j < idx then ks (j + 1) else ks j)"
proof (induction ks i idx rule: increase_left_loop.induct)
  case (1 ks i idx)
  show ?case
  proof (cases "i < idx")
    case True
    then show ?thesis
      by (subst increase_left_loop.simps) (auto simp: 1 fun_eq_iff)
  next
    case False
    then show ?thesis
      by (subst increase_left_loop.simps) (auto simp: fun_eq_iff)
  qed
qed



section \<open>Initialisation (C9)\<close>

text \<open>
  C9. \<^verbatim>\<open>__ttree_init\<close> fails with \<open>-1\<close> and \<^verbatim>\<open>errno = EINVAL\<close>, leaving the handle as
  it was, when the number of keys per node is below 2 or above \<open>TNODE_ITEMS_MAX\<close>, or the
  tree pointer or the comparator is null. Otherwise it returns \<open>0\<close>, leaves \<^verbatim>\<open>errno\<close>
  alone, and the handle has a null root and exactly the given keys per node, comparator,
  key offset and uniqueness flag.
\<close>

theorem ttree_init_spec:
  "(num_keys < 2 \<or> num_keys > TNODE_ITEMS_MAX \<or> tp = None \<or> cmpf = None \<longrightarrow>
      uu_ttree_init tp errno num_keys is_unique cmpf offs = (- 1, EINVAL, tp)) \<and>
   (\<not> (num_keys < 2 \<or> num_keys > TNODE_ITEMS_MAX \<or> tp = None \<or> cmpf = None) \<longrightarrow>
      (\<exists>t'. uu_ttree_init tp errno num_keys is_unique cmpf offs = (0, errno, Some t') \<and>
            root t' = None \<and> keys_per_tnode t' = num_keys \<and> cmp_func t' = cmpf \<and>
            key_offs t' = offs \<and> keys_are_unique t' = is_unique))"
  by (cases tp) (auto simp: uu_ttree_init_def TNODE_ITEMS_MIN_def)

theorem ttree_init_spec_witness:
  "((1::int) < 2 \<or> (1::int) > TNODE_ITEMS_MAX \<or> Some (new_ttree 0 False cmp_int) = None
      \<or> Some cmp_int = None) \<and>
   uu_ttree_init (Some (new_ttree 0 False cmp_int)) 0 1 True (Some cmp_int) 4
     = (- 1, EINVAL, Some (new_ttree 0 False cmp_int)) \<and>
   \<not> ((8::int) < 2 \<or> (8::int) > TNODE_ITEMS_MAX \<or> Some (new_ttree 0 False cmp_int) = None
      \<or> Some cmp_int = None) \<and>
   (\<exists>t'. uu_ttree_init (Some (new_ttree 0 False cmp_int)) 0 8 True (Some cmp_int) 4
            = (0, 0, Some t') \<and>
         root t' = None \<and> keys_per_tnode t' = 8 \<and> cmp_func t' = Some cmp_int \<and>
         key_offs t' = 4 \<and> keys_are_unique t' = True)"
  using ttree_init_spec [of 1 "Some (new_ttree 0 False cmp_int)" "Some cmp_int" 0 True 4]
        ttree_init_spec [of 8 "Some (new_ttree 0 False cmp_int)" "Some cmp_int" 0 True 4]
  by (simp add: TNODE_ITEMS_MAX_def)

section \<open>Reading through a cursor (C10)\<close>

text \<open>
  C10. For a cursor that is not \<open>CURSOR_OPENED\<close>, \<^verbatim>\<open>ttree_key_from_cursor\<close> and
  \<^verbatim>\<open>ttree_item_from_cursor\<close> return \<open>NULL\<close> and read no node. For an opened cursor on
  an allocated node the key is the slot \<open>idx\<close> of the node, and the item is that key minus
  the key offset (\<open>NULL\<close> when the slot holds a null key).
\<close>

theorem cursor_read_spec:
  "(c_state cursor \<noteq> CURSOR_OPENED \<longrightarrow>
      ttree_key_from_cursor s cursor = Some NULL \<and> ttree_item_from_cursor s cursor = Some NULL) \<and>
   (c_state cursor = CURSOR_OPENED \<and> deref s (c_tnode cursor) = Some n \<longrightarrow>
      ttree_key_from_cursor s cursor = Some (keys n (c_idx cursor)) \<and>
      (c_ttree cursor \<noteq> None \<longrightarrow>
         ttree_item_from_cursor s cursor =
           Some (if keys n (c_idx cursor) = NULL then NULL
                 else keys n (c_idx cursor) - key_offs (tree s))))"
  by (auto simp: ttree_key_from_cursor_def ttree_item_from_cursor_def tnode_key_def
      ttree_key2item_def)

theorem cursor_read_spec_witness:
  "c_state (cursor_at 0 2 CURSOR_PENDING) \<noteq> CURSOR_OPENED \<and>
   ttree_key_from_cursor
     (one_leaf_store ((new_ttree 4 True cmp_int)\<lparr>key_offs := 8\<rparr>)
        (leaf_node 1 2 (keys_of_list [0, 108, 208, 0])))
     (cursor_at 0 2 CURSOR_PENDING) = Some NULL \<and>
   ttree_item_from_cursor
     (one_leaf_store ((new_ttree 4 True cmp_int)\<lparr>key_offs := 8\<rparr>)
        (leaf_node 1 2 (keys_of_list [0, 108, 208, 0])))
     (cursor_at 0 2 CURSOR_PENDING) = Some NULL \<and>
   c_state (cursor_at 0 2 CURSOR_OPENED) = CURSOR_OPENED \<and>
   deref (one_leaf_store ((new_ttree 4 True cmp_int)\<lparr>key_offs := 8\<rparr>)
            (leaf_node 1 2 (keys_of_list [0, 108, 208, 0])))
         (c_tnode (cursor_at 0 2 CURSOR_OPENED))
     = Some (leaf_node 1 2 (keys_of_list [0, 108, 208, 0])) \<and>
   c_ttree (cursor_at 0 2 CURSOR_OPENED) \<noteq> None \<and>
   ttree_key_from_cursor
     (one_leaf_store ((new_ttree 4 True cmp_int)\<lparr>key_offs := 8\<rparr>)
        (leaf_node 1 2 (keys_of_list [0, 108, 208, 0])))
     (cursor_at 0 2 CURSOR_OPENED) = Some 208 \<and>
   ttree_item_from_cursor
     (one_leaf_store ((new_ttree 4 True cmp_int)\<lparr>key_offs := 8\<rparr>)
        (leaf_node 1 2 (keys_of_list [0, 108, 208, 0])))
     (cursor_at 0 2 CURSOR_OPENED) = Some 200"
  using cursor_read_spec [of "cursor_at 0 2 CURSOR_PENDING"
          "one_leaf_store ((new_ttree 4 True cmp_int)\<lparr>key_offs := 8\<rparr>)
             (leaf_node 1 2 (keys_of_list [0, 108, 208, 0]))"]
        cursor_read_spec [of "cursor_at 0 2 CURSOR_OPENED"
          "one_leaf_store ((new_ttree 4 True cmp_int)\<lparr>key_offs := 8\<rparr>)
             (leaf_node 1 2 (keys_of_list [0, 108, 208, 0]))"
          "leaf_node 1 2 (keys_of_list [0, 108, 208, 0])"]
  by (simp add: cursor_at_def one_leaf_store_def deref_def leaf_node_def new_ttree_def
      NULL_def keys_of_list_def)

section \<open>Growing the window of a node (C5)\<close>

text \<open>
  C5, as the claim states it, at a tie: in a node of capacity 4 whose window is
  \<open>1 .. 2\<close>, one slot is free on each side and the node is not full. The claim has the
  window grow to the right, to \<open>1 .. 3\<close>; \<^verbatim>\<open>increase_tnode_window\<close> grows it to the
  left, to \<open>0 .. 2\<close>, and moves the keys before the insertion position down by one.
\<close>

theorem increase_tnode_window_tie_counterexample:
  "\<not> tnode_is_full (new_ttree 4 True cmp_int) (leaf_node 1 2 (keys_of_list [0, 10, 20, 0])) \<and>
   keys_per_tnode (new_ttree 4 True cmp_int) - 1 - max_idx (leaf_node 1 2 (keys_of_list [0, 10, 20, 0]))
     = min_idx (leaf_node 1 2 (keys_of_list [0, 10, 20, 0])) \<and>
   max_idx (fst (increase_tnode_window (new_ttree 4 True cmp_int)
                   (leaf_node 1 2 (keys_of_list [0, 10, 20, 0])) 3)) = 2 \<and>
   min_idx (fst (increase_tnode_window (new_ttree 4 True cmp_int)
                   (leaf_node 1 2 (keys_of_list [0, 10, 20, 0])) 3)) = 0 \<and>
   snd (increase_tnode_window (new_ttree 4 True cmp_int)
          (leaf_node 1 2 (keys_of_list [0, 10, 20, 0])) 3) = 2 \<and>
   map (keys (fst (increase_tnode_window (new_ttree 4 True cmp_int)
                     (leaf_node 1 2 (keys_of_list [0, 10, 20, 0])) 3))) [0, 1] = [10, 20]"
  by (simp add: increase_tnode_window_def tnode_is_full_def tnode_num_keys_def new_ttree_def
      leaf_node_def set_min_idx_def Let_def increase_left_loop_eq keys_of_list_def)

text \<open>
  C5, amended. In a node that is not full, whose window lies inside the array of a tree
  with at most 2048 keys per node (the range of the 12-bit index fields), inserting at
  index \<open>idx\<close> grows the window by one slot to the right when the right side has strictly
  more free slots than the left side, and by one slot to the left otherwise, so also at a
  tie. Growing to the right moves the keys from \<open>idx\<close> to the old maximum up by one;
  growing to the left moves the keys from the old minimum to \<open>idx - 1\<close> down by one and
  the insertion index becomes \<open>idx - 1\<close>. No other key and no other field changes
  (the slot of the insertion index itself is written by the caller).
\<close>

theorem increase_tnode_window_spec:
  assumes full: "\<not> tnode_is_full t n"
    and win: "0 \<le> min_idx n" "min_idx n \<le> max_idx n + 1" "max_idx n < keys_per_tnode t"
    and cap: "keys_per_tnode t \<le> 2048"
    and res: "increase_tnode_window t n idx = (n', idx')"
  shows "(keys_per_tnode t - 1 - max_idx n > min_idx n \<longrightarrow>
            min_idx n' = min_idx n \<and> max_idx n' = max_idx n + 1 \<and> idx' = idx \<and>
            (\<forall>i. idx < i \<and> i \<le> max_idx n + 1 \<longrightarrow> keys n' i = keys n (i - 1)) \<and>
            (\<forall>i. i < idx \<or> max_idx n + 1 < i \<longrightarrow> keys n' i = keys n i)) \<and>
         (keys_per_tnode t - 1 - max_idx n \<le> min_idx n \<longrightarrow>
            min_idx n' = min_idx n - 1 \<and> max_idx n' = max_idx n \<and> idx' = idx - 1 \<and>
            0 \<le> min_idx n' \<and>
            (\<forall>i. min_idx n - 1 \<le> i \<and> i < idx - 1 \<longrightarrow> keys n' i = keys n (i + 1)) \<and>
            (\<forall>i. i < min_idx n - 1 \<or> idx - 1 \<le> i \<longrightarrow> keys n' i = keys n i)) \<and>
         parent n' = parent n \<and> successor n' = successor n \<and> left n' = left n \<and>
         right n' = right n \<and> bfc n' = bfc n \<and> node_side n' = node_side n"
proof (cases "keys_per_tnode t - 1 - max_idx n > min_idx n")
  case True
  then have "signed_take_bit 11 (max_idx n + 1) = max_idx n + 1"
    using win cap by (intro bf12_id) auto
  with True res show ?thesis
    by (auto simp: increase_tnode_window_def set_max_idx_def Let_def increase_right_loop_eq)
next
  case False
  with full win have "1 \<le> min_idx n"
    by (auto simp: tnode_is_full_def tnode_num_keys_def)
  then have "signed_take_bit 11 (min_idx n - 1) = min_idx n - 1"
    using win cap by (intro bf12_id) auto
  with False res \<open>1 \<le> min_idx n\<close> show ?thesis
    by (auto simp: increase_tnode_window_def set_min_idx_def Let_def increase_left_loop_eq)
qed

theorem increase_tnode_window_spec_witness:
  "\<not> tnode_is_full (new_ttree 4 True cmp_int) (leaf_node 1 2 (keys_of_list [0, 10, 20, 0])) \<and>
   0 \<le> min_idx (leaf_node 1 2 (keys_of_list [0, 10, 20, 0])) \<and>
   min_idx (leaf_node 1 2 (keys_of_list [0, 10, 20, 0]))
     \<le> max_idx (leaf_node 1 2 (keys_of_list [0, 10, 20, 0])) + 1 \<and>
   max_idx (leaf_node 1 2 (keys_of_list [0, 10, 20, 0])) < keys_per_tnode (new_ttree 4 True cmp_int) \<and>
   keys_per_tnode (new_ttree 4 True cmp_int) \<le> 2048 \<and>
   keys_per_tnode (new_ttree 4 True cmp_int) - 1 - max_idx (leaf_node 1 2 (keys_of_list [0, 10, 20, 0]))
     \<le> min_idx (leaf_node 1 2 (keys_of_list [0, 10, 20, 0])) \<and>
   min_idx (fst (increase_tnode_window (new_ttree 4 True cmp_int)
                   (leaf_node 1 2 (keys_of_list [0, 10, 20, 0])) 2)) = 0 \<and>
   max_idx (fst (increase_tnode_window (new_ttree 4 True cmp_int)
                   (leaf_node 1 2 (keys_of_list [0, 10, 20, 0])) 2)) = 2 \<and>
   snd (increase_tnode_window (new_ttree 4 True cmp_int)
          (leaf_node 1 2 (keys_of_list [0, 10, 20, 0])) 2) = 1 \<and>
   keys (fst (increase_tnode_window (new_ttree 4 True cmp_int)
                (leaf_node 1 2 (keys_of_list [0, 10, 20, 0])) 2)) 0 = 10 \<and>
   keys (fst (increase_tnode_window (new_ttree 4 True cmp_int)
                (leaf_node 1 2 (keys_of_list [0, 10, 20, 0])) 2)) 2 = 20 \<and>
   \<not> tnode_is_full (new_ttree 4 True cmp_int) (leaf_node 0 1 (keys_of_list [10, 20, 0, 0])) \<and>
   keys_per_tnode (new_ttree 4 True cmp_int) - 1 - max_idx (leaf_node 0 1 (keys_of_list [10, 20, 0, 0]))
     > min_idx (leaf_node 0 1 (keys_of_list [10, 20, 0, 0])) \<and>
   min_idx (fst (increase_tnode_window (new_ttree 4 True cmp_int)
                   (leaf_node 0 1 (keys_of_list [10, 20, 0, 0])) 1)) = 0 \<and>
   max_idx (fst (increase_tnode_window (new_ttree 4 True cmp_int)
                   (leaf_node 0 1 (keys_of_list [10, 20, 0, 0])) 1)) = 2 \<and>
   snd (increase_tnode_window (new_ttree 4 True cmp_int)
          (leaf_node 0 1 (keys_of_list [10, 20, 0, 0])) 1) = 1 \<and>
   keys (fst (increase_tnode_window (new_ttree 4 True cmp_int)
                (leaf_node 0 1 (keys_of_list [10, 20, 0, 0])) 1)) 0 = 10 \<and>
   keys (fst (increase_tnode_window (new_ttree 4 True cmp_int)
                (leaf_node 0 1 (keys_of_list [10, 20, 0, 0])) 1)) 2 = 20"
proof -
  let ?t = "new_ttree 4 True cmp_int"
  let ?n = "leaf_node 1 2 (keys_of_list [0, 10, 20, 0])"
  let ?m = "leaf_node 0 1 (keys_of_list [10, 20, 0, 0])"
  have h1: "\<not> tnode_is_full ?t ?n" "\<not> tnode_is_full ?t ?m"
    by (simp_all add: tnode_is_full_def tnode_num_keys_def new_ttree_def leaf_node_def)
  have h2: "0 \<le> min_idx ?n" "min_idx ?n \<le> max_idx ?n + 1" "max_idx ?n < keys_per_tnode ?t"
    "0 \<le> min_idx ?m" "min_idx ?m \<le> max_idx ?m + 1" "max_idx ?m < keys_per_tnode ?t"
    by (simp_all add: new_ttree_def leaf_node_def)
  have h3: "keys_per_tnode ?t \<le> 2048"
    by (simp add: new_ttree_def)
  have h4: "keys_per_tnode ?t - 1 - max_idx ?n \<le> min_idx ?n"
    "keys_per_tnode ?t - 1 - max_idx ?m > min_idx ?m"
    by (simp_all add: new_ttree_def leaf_node_def)
  have k: "keys ?n 1 = 10" "keys ?n 2 = 20" "keys ?m 0 = 10" "keys ?m 1 = 20"
    "min_idx ?n = 1" "max_idx ?n = 2" "min_idx ?m = 0" "max_idx ?m = 1"
    by (simp_all add: leaf_node_def keys_of_list_def)
  show ?thesis
    using increase_tnode_window_spec [OF h1(1) h2(1-3) h3, of 2
            "fst (increase_tnode_window ?t ?n 2)" "snd (increase_tnode_window ?t ?n 2)"]
          increase_tnode_window_spec [OF h1(2) h2(4-6) h3, of 1
            "fst (increase_tnode_window ?t ?m 1)" "snd (increase_tnode_window ?t ?m 1)"]
          h1 h2 h3 h4 k
    by simp
qed

section \<open>Deletion above the low-water mark (C7)\<close>

text \<open>
  C7. When \<^verbatim>\<open>ttree_delete_at_cursor\<close> is called with an opened cursor on an allocated
  node and the node, after \<^verbatim>\<open>decrease_tnode_window\<close>, holds more than \<open>M - M div 4\<close>
  keys, the call returns the item of the removed key and the store differs from the one
  before only in that node, of which only the window (\<open>min_idx\<close>, \<open>max_idx\<close>, \<open>keys\<close>) has
  changed: the tree handle, every other node, all links and balance factors are the same,
  and nothing is allocated or freed. The cursor is closed and stays on the node.
\<close>

theorem delete_at_cursor_above_low_water:
  assumes "c_ttree cursor \<noteq> None" and "c_state cursor = CURSOR_OPENED"
    and "c_tnode cursor = Some a" and "heap s a = Some n"
    and "decrease_tnode_window (tree s) n (c_idx cursor) = (n1, idx1)"
    and "tnode_num_keys n1 > keys_per_tnode (tree s) - keys_per_tnode (tree s) div 4"
  shows "\<exists>cursor'. ttree_delete_at_cursor s cursor =
            Some (ttree_key2item (tree s) (keys n (c_idx cursor)),
                  s\<lparr>heap := (heap s)(a \<mapsto> n1)\<rparr>, cursor') \<and>
           c_state cursor' = CURSOR_CLOSED \<and> c_tnode cursor' = Some a \<and>
           c_ttree cursor' = c_ttree cursor \<and> c_side cursor' = c_side cursor \<and>
           parent n1 = parent n \<and> successor n1 = successor n \<and> left n1 = left n \<and>
           right n1 = right n \<and> bfc n1 = bfc n \<and> node_side n1 = node_side n"
proof -
  have fr: "parent n1 = parent n \<and> successor n1 = successor n \<and> left n1 = left n \<and>
           right n1 = right n \<and> bfc n1 = bfc n \<and> node_side n1 = node_side n"
    using assms(5)
    by (auto simp: decrease_tnode_window_def Let_def set_max_idx_def set_min_idx_def
        split: if_splits)
  have lw: "tnode_num_keys n1 > min_tnode_entries (tree s)"
    using assms(6) by (simp add: min_tnode_entries_def drop_bit_eq_div)
  show ?thesis
    using assms(1-5) lw fr
    by (simp add: ttree_delete_at_cursor_def TTREE_ASSERT_def modify_def Let_def)
qed

theorem delete_at_cursor_above_low_water_witness:
  "c_ttree (cursor_at 0 3 CURSOR_OPENED) \<noteq> None \<and>
   c_state (cursor_at 0 3 CURSOR_OPENED) = CURSOR_OPENED \<and>
   c_tnode (cursor_at 0 3 CURSOR_OPENED) = Some 0 \<and>
   heap (one_leaf_store (new_ttree 8 True cmp_int) (leaf_node 0 7 (keys_of_list [1, 2, 3, 4, 5, 6, 7, 8]))) 0
     = Some (leaf_node 0 7 (keys_of_list [1, 2, 3, 4, 5, 6, 7, 8])) \<and>
   tnode_num_keys (fst (decrease_tnode_window (new_ttree 8 True cmp_int)
                          (leaf_node 0 7 (keys_of_list [1, 2, 3, 4, 5, 6, 7, 8])) 3)) = 7 \<and>
   (7::int) > 8 - 8 div 4 \<and>
   (\<exists>cursor'.
      ttree_delete_at_cursor
        (one_leaf_store (new_ttree 8 True cmp_int) (leaf_node 0 7 (keys_of_list [1, 2, 3, 4, 5, 6, 7, 8])))
        (cursor_at 0 3 CURSOR_OPENED)
      = Some (4,
              (one_leaf_store (new_ttree 8 True cmp_int)
                 (leaf_node 0 7 (keys_of_list [1, 2, 3, 4, 5, 6, 7, 8])))
              \<lparr>heap := (heap (one_leaf_store (new_ttree 8 True cmp_int)
                                (leaf_node 0 7 (keys_of_list [1, 2, 3, 4, 5, 6, 7, 8]))))
                  (0 \<mapsto> fst (decrease_tnode_window (new_ttree 8 True cmp_int)
                                (leaf_node 0 7 (keys_of_list [1, 2, 3, 4, 5, 6, 7, 8])) 3))\<rparr>,
              cursor') \<and>
      c_state cursor' = CURSOR_CLOSED)"
proof -
  let ?t = "new_ttree 8 True cmp_int"
  let ?n = "leaf_node 0 7 (keys_of_list [1, 2, 3, 4, 5, 6, 7, 8])"
  let ?s = "one_leaf_store ?t ?n"
  let ?c = "cursor_at 0 3 CURSOR_OPENED"
  have t: "tree ?s = ?t\<lparr>root := Some 0\<rparr>"
    by (simp add: one_leaf_store_def)
  have d: "decrease_tnode_window (?t\<lparr>root := Some 0\<rparr>) ?n 3 = decrease_tnode_window ?t ?n 3"
    by (simp add: decrease_tnode_window_def new_ttree_def)
  have h1: "c_ttree ?c \<noteq> None" "c_state ?c = CURSOR_OPENED" "c_tnode ?c = Some 0" "c_idx ?c = 3"
    by (simp_all add: cursor_at_def)
  have h2: "heap ?s 0 = Some ?n"
    by (simp add: one_leaf_store_def)
  have h3: "decrease_tnode_window (tree ?s) ?n (c_idx ?c)
      = (fst (decrease_tnode_window ?t ?n 3), snd (decrease_tnode_window ?t ?n 3))"
    by (simp add: t d h1)
  have nk: "tnode_num_keys (fst (decrease_tnode_window ?t ?n 3)) = 7"
    by (simp add: decrease_tnode_window_def new_ttree_def leaf_node_def set_max_idx_def
        tnode_num_keys_def Let_def)
  have kp: "keys_per_tnode (tree ?s) = 8"
    by (simp add: one_leaf_store_def new_ttree_def)
  have h4: "tnode_num_keys (fst (decrease_tnode_window ?t ?n 3))
      > keys_per_tnode (tree ?s) - keys_per_tnode (tree ?s) div 4"
    unfolding kp nk by simp
  have k: "ttree_key2item (tree ?s) (keys ?n (c_idx ?c)) = 4"
    by (simp add: one_leaf_store_def h1 ttree_key2item_def new_ttree_def leaf_node_def
        keys_of_list_def)
  show ?thesis
    using delete_at_cursor_above_low_water [OF h1(1) h1(2) h1(3) h2 h3 h4] h1 h2 nk k
    by auto
qed

section \<open>Replacement (C4)\<close>

text \<open>
  C4 on the code. A tree holds the key pointer \<open>50\<close> (key value 5 under \<open>cmp_tens\<close>), and
  a lookup of the equal key at \<open>57\<close> finds it. \<^verbatim>\<open>ttree_replace\<close> for that key, with a
  new item at \<open>53\<close>, looks up the address of its own cursor (here \<open>1000\<close>) instead,
  returns \<open>-1\<close> and leaves the slot as it was, whatever the cursor contains.
\<close>

theorem ttree_replace_misses_present_key:
  "do { (_, s1) \<leftarrow> ttree_insert (new_store (new_ttree 4 True cmp_tens) u) 50;
        (found, _) \<leftarrow> ttree_lookup s1 57 None;
        (r, s2) \<leftarrow> ttree_replace s1 1000 c0 57 53;
        ks \<leftarrow> ttree_keys s2;
        Some (found, r, ks) } = Some (50, - 1, [50])"
  by code_simp

section \<open>Order of the keys along the successor links (C1)\<close>

text \<open>
  C1 on the code. In a tree with two keys per node and unique keys, after the insertions
  of 2, 3, 1, 6, 7, 4, 5 and the deletions of 6 and 2 the keys along the successor links
  are 1, 3, 4, 5, 7. The deletion of 1 succeeds and leaves 4, 3, 5, 7: the rebalancing
  after the deletion runs without a cursor and its key migration from the left child
  takes the smallest keys instead of the largest.
\<close>

theorem ttree_delete_breaks_order:
  "do { (_, s1) \<leftarrow> ttree_insert (new_store (new_ttree 2 True cmp_int) u) 2;
        (_, s2) \<leftarrow> ttree_insert s1 3;
        (_, s3) \<leftarrow> ttree_insert s2 1;
        (_, s4) \<leftarrow> ttree_insert s3 6;
        (_, s5) \<leftarrow> ttree_insert s4 7;
        (_, s6) \<leftarrow> ttree_insert s5 4;
        (_, s7) \<leftarrow> ttree_insert s6 5;
        (_, s8) \<leftarrow> ttree_delete s7 6;
        (_, s9) \<leftarrow> ttree_delete s8 2;
        (r, s10) \<leftarrow> ttree_delete s9 1;
        ks9 \<leftarrow> ttree_keys s9;
        ks10 \<leftarrow> ttree_keys s10;
        Some (ks9, r, ks10) } = Some ([1, 3, 4, 5, 7], 1, [4, 3, 5, 7])"
  by code_simp

section \<open>The walk after an insertion (C6)\<close>









section \<open>Key migration after a double rotation (C3)\<close>

lemma map_upto_shift: "map (\<lambda>i. f (i + c)) [a..b] = map f [a + c..b + c]"
  by (rule nth_equalityI) (auto simp: algebra_simps)









lemma tnode_keys_single:
  "min_idx n = max_idx n \<Longrightarrow> tnode_keys n = [keys n (min_idx n)]"
  by (simp add: tnode_keys_def)

















section \<open>Bound insertion into a full node (C2)\<close>

lemma increase_tnode_window_right:
  assumes "keys_per_tnode t - 1 - max_idx n > min_idx n"
    and "- 2048 \<le> max_idx n + 1" "max_idx n + 1 < 2048"
  shows "increase_tnode_window t n idx =
           (n\<lparr>max_idx := max_idx n + 1,
              keys := (\<lambda>j. if idx \<le> j \<and> j \<le> max_idx n + 1 then keys n (j - 1) else keys n j)\<rparr>,
            idx)"
  using assms
  by (simp add: increase_tnode_window_def set_max_idx_def Let_def increase_right_loop_eq bf12_id
      cong: if_cong)

lemma increase_tnode_window_left:
  assumes "\<not> keys_per_tnode t - 1 - max_idx n > min_idx n"
    and "- 2048 \<le> min_idx n - 1" "min_idx n - 1 < 2048"
  shows "increase_tnode_window t n idx =
           (n\<lparr>min_idx := min_idx n - 1,
              keys := (\<lambda>j. if min_idx n - 1 \<le> j \<and> j < idx - 1 then keys n (j + 1) else keys n j)\<rparr>,
            idx - 1)"
  using assms
  by (simp add: increase_tnode_window_def set_min_idx_def Let_def increase_left_loop_eq bf12_id
      cong: if_cong)

lemma insert_displace_max_full:
  assumes full: "tnode_is_full t n" "min_idx n = 0"
    and cap: "2 \<le> keys_per_tnode t" "keys_per_tnode t \<le> 2048"
  shows "insert_displace_max t n idx key =
           (n\<lparr>keys := (\<lambda>j. if j = idx then key
                           else if idx \<le> j \<and> j \<le> max_idx n then keys n (j - 1) else keys n j)\<rparr>,
            idx, keys n (max_idx n))"
proof -
  have mx: "max_idx n = keys_per_tnode t - 1"
    using full by (simp add: tnode_is_full_def tnode_num_keys_def)
  have b: "signed_take_bit 11 (max_idx n - 1) = max_idx n - 1"
    using mx cap by (intro bf12_id) auto
  let ?n1 = "n\<lparr>max_idx := max_idx n - 1\<rparr>"
  have w: "increase_tnode_window t ?n1 idx =
           (?n1\<lparr>max_idx := max_idx ?n1 + 1,
              keys := (\<lambda>j. if idx \<le> j \<and> j \<le> max_idx ?n1 + 1 then keys ?n1 (j - 1) else keys ?n1 j)\<rparr>,
            idx)"
    using mx cap full by (intro increase_tnode_window_right) auto
  show ?thesis
    unfolding insert_displace_max_def Let_def set_max_idx_def b w
    by (simp add: set_key_def fun_eq_iff)
qed


lemma insert_new_leaf_result:
  assumes at: "heap s at = Some an" and fresh: "heap s (brk s) = None"
    and side: "c_side cursor = side" "side = 0 \<or> side = 1"
    and idx: "- 2048 \<le> c_idx cursor" "c_idx cursor < 2048"
  shows "insert_new_leaf s (Some at) cursor key =
           Some (brk s,
                 s\<lparr>heap := (heap s)
                    (brk s \<mapsto> \<lparr>parent = Some at, successor = None, left = None, right = None,
                               min_idx = c_idx cursor, max_idx = c_idx cursor, bfc = 0,
                               node_side = side + 1, keys = (uninit s)(c_idx cursor := key)\<rparr>,
                     at \<mapsto> (if side = 0 then an\<lparr>left := Some (brk s)\<rparr>
                            else an\<lparr>right := Some (brk s)\<rparr>)),
                   brk := Suc (brk s)\<rparr>,
                 cursor\<lparr>c_tnode := Some (brk s), c_state := CURSOR_OPENED\<rparr>)"
proof -
  have ne: "at \<noteq> brk s"
    using at fresh by auto
  have b: "signed_take_bit 11 (c_idx cursor) = c_idx cursor"
    using idx by (rule bf12_id)
  show ?thesis
    using side(2)
  proof
    assume "side = 0"
    then show ?thesis
      using at ne side(1)
      by (simp add: insert_new_leaf_def allocate_ttree_node_def Let_def modify_def modify_opt_def
          set_key_def set_max_idx_def set_min_idx_def set_sides_def tnode_set_side_def b
          fun_upd_twist)
  next
    assume "side = 1"
    then show ?thesis
      using at ne side(1)
      by (simp add: insert_new_leaf_def allocate_ttree_node_def Let_def modify_def modify_opt_def
          set_key_def set_max_idx_def set_min_idx_def set_sides_def tnode_set_side_def b
          fun_upd_twist)
  qed
qed


lemma insert_bound_at_min:
  assumes at: "heap s at = Some an" and nf: "\<not> tnode_is_full (tree s) an"
    and win: "0 \<le> min_idx an" "min_idx an \<le> max_idx an + 1"
      "max_idx an < keys_per_tnode (tree s)"
    and cap: "keys_per_tnode (tree s) \<le> 2048"
    and idx: "c_idx cursor = min_idx an"
  shows "\<exists>an' idx'. insert_bound s at cursor key =
           Some (s\<lparr>heap := (heap s)(at \<mapsto> an')\<rparr>,
                 cursor\<lparr>c_idx := idx', c_state := CURSOR_OPENED\<rparr>) \<and>
           tnode_keys an' = key # tnode_keys an \<and>
           parent an' = parent an \<and> successor an' = successor an \<and> left an' = left an \<and>
           right an' = right an \<and> bfc an' = bfc an \<and> node_side an' = node_side an"
proof (cases "keys_per_tnode (tree s) - 1 - max_idx an > min_idx an")
  case True
  let ?K = "\<lambda>j. if min_idx an \<le> j \<and> j \<le> max_idx an + 1 then keys an (j - 1) else keys an j"
  let ?an = "an\<lparr>max_idx := max_idx an + 1, keys := ?K(min_idx an := key)\<rparr>"
  have w: "increase_tnode_window (tree s) an (min_idx an)
      = (an\<lparr>max_idx := max_idx an + 1, keys := ?K\<rparr>, min_idx an)"
    using True win cap by (intro increase_tnode_window_right) auto
  have r: "insert_bound s at cursor key =
           Some (s\<lparr>heap := (heap s)(at \<mapsto> ?an)\<rparr>,
                 cursor\<lparr>c_idx := min_idx an, c_state := CURSOR_OPENED\<rparr>)"
    using at by (simp add: insert_bound_def idx w modify_def set_key_def)
  have a: "[min_idx an..max_idx an + 1] = min_idx an # [min_idx an + 1..max_idx an + 1]"
    using win by (simp add: upto_rec1 [of "min_idx an"])
  have b: "map (?K(min_idx an := key)) [min_idx an + 1..max_idx an + 1]
      = map (\<lambda>i. keys an (i + (- 1))) [min_idx an + 1..max_idx an + 1]"
    by (rule map_cong) auto
  have c: "map (\<lambda>i. keys an (i + (- 1))) [min_idx an + 1..max_idx an + 1]
      = map (keys an) [min_idx an + 1 + (- 1)..max_idx an + 1 + (- 1)]"
    by (rule map_upto_shift)
  have d: "min_idx an + 1 + (- 1) = min_idx an" "max_idx an + 1 + (- 1) = max_idx an"
    by simp_all
  have "tnode_keys ?an = map (?K(min_idx an := key)) [min_idx an..max_idx an + 1]"
    by (simp add: tnode_keys_def)
  also have "\<dots> = key # map (?K(min_idx an := key)) [min_idx an + 1..max_idx an + 1]"
    by (subst a) simp
  also have "\<dots> = key # tnode_keys an"
    unfolding b c d tnode_keys_def ..
  finally have "tnode_keys ?an = key # tnode_keys an" .
  with r show ?thesis
    by (intro exI [of _ ?an] exI [of _ "min_idx an"]) simp
next
  case False
  with nf win have m1: "1 \<le> min_idx an"
    by (auto simp: tnode_is_full_def tnode_num_keys_def)
  let ?K = "\<lambda>j. if min_idx an - 1 \<le> j \<and> j < min_idx an - 1 then keys an (j + 1) else keys an j"
  let ?an = "an\<lparr>min_idx := min_idx an - 1, keys := ?K(min_idx an - 1 := key)\<rparr>"
  have w: "increase_tnode_window (tree s) an (min_idx an)
      = (an\<lparr>min_idx := min_idx an - 1, keys := ?K\<rparr>, min_idx an - 1)"
    using False win cap m1 by (intro increase_tnode_window_left) auto
  have r: "insert_bound s at cursor key =
           Some (s\<lparr>heap := (heap s)(at \<mapsto> ?an)\<rparr>,
                 cursor\<lparr>c_idx := min_idx an - 1, c_state := CURSOR_OPENED\<rparr>)"
    using at by (simp add: insert_bound_def idx w modify_def set_key_def)
  have a: "[min_idx an - 1..max_idx an] = (min_idx an - 1) # [min_idx an..max_idx an]"
    using win by (simp add: upto_rec1 [of "min_idx an - 1"])
  have b: "map (?K(min_idx an - 1 := key)) [min_idx an..max_idx an]
      = map (keys an) [min_idx an..max_idx an]"
    by (rule map_cong) auto
  have "tnode_keys ?an = map (?K(min_idx an - 1 := key)) [min_idx an - 1..max_idx an]"
    by (simp add: tnode_keys_def)
  also have "\<dots> = key # map (?K(min_idx an - 1 := key)) [min_idx an..max_idx an]"
    by (subst a) simp
  also have "\<dots> = key # tnode_keys an"
    unfolding b tnode_keys_def ..
  finally have "tnode_keys ?an = key # tnode_keys an" .
  with r show ?thesis
    by (intro exI [of _ ?an] exI [of _ "min_idx an - 1"]) simp
qed

text \<open>
  C2, as the claim states it, at a full node without a right child whose successor has
  room: the key \<open>25\<close> is looked up in the tree above, which leaves a cursor with side
  \<open>BOUND\<close> on the full leaf \<open>10, 20, 30, 40\<close>; the successor of the leaf is the root
  \<open>100, 110, 120\<close>, which is not full. The claim has the displaced maximum \<open>40\<close>
  inserted at the minimum position of the successor; \<^verbatim>\<open>ttree_insert_at_cursor\<close> tests
  \<^verbatim>\<open>!n->successor || !n->right\<close> first, allocates a node (the allocation counter goes
  from 2 to 3) and leaves the keys of the successor as they were.
\<close>

theorem insert_full_node_successor_room_counterexample:
  "do { s \<leftarrow> displaced_max_example;
        (_, cur) \<leftarrow> ttree_lookup s 25 (Some (cursor_at 0 0 CURSOR_CLOSED));
        c \<leftarrow> cur;
        na \<leftarrow> c_tnode c;
        n \<leftarrow> heap s na;
        sa \<leftarrow> successor n;
        sn \<leftarrow> heap s sa;
        (s', _) \<leftarrow> ttree_insert_at_cursor s c 25;
        sn' \<leftarrow> heap s' sa;
        Some (c_side c = TNODE_BOUND, tnode_is_full (tree s) n, tnode_keys n, right n,
              tnode_is_full (tree s) sn, tnode_keys sn, brk s, brk s', tnode_keys sn') }
   = Some (True, True, [10, 20, 30, 40], None, False, [100, 110, 120], 2, 3, [100, 110, 120])"
  by code_simp

text \<open>
  C2, amended: for every bound insertion (cursor side \<open>BOUND\<close>) into a full node of a tree
  of capacity between 2 and 2048 (the range of the 12-bit window fields),
  \<^verbatim>\<open>ttree_insert_at_cursor\<close> removes the maximum key of the node and puts the new key
  at the cursor's index, the keys before it moving down by one slot; then the displaced
  maximum is propagated: if the node has no successor or no right child, a new leaf
  holding the displaced key becomes the right child of the node; otherwise, if the
  successor is full, a new leaf holding the displaced key becomes the left child of the
  successor; otherwise the displaced key is put at the minimum position of the successor,
  before its other keys, and nothing else changes. In the two cases with a new leaf the
  call continues with \<^verbatim>\<open>fixup_after_insertion\<close> from that leaf.
\<close>

theorem insert_at_cursor_full_node:
  assumes rt: "root (tree s) \<noteq> None"
    and cur: "c_ttree cursor \<noteq> None" "c_side cursor = TNODE_BOUND" "c_tnode cursor = Some na"
    and n: "heap s na = Some n" "tnode_is_full (tree s) n" "min_idx n = 0"
    and cap: "2 \<le> keys_per_tnode (tree s)" "keys_per_tnode (tree s) \<le> 2048"
    and fresh: "heap s (brk s) = None"
    and key: "key = ttree_item2key (tree s) item"
    and n3: "n3 = n\<lparr>keys := (\<lambda>j. if j = c_idx cursor then key
                                  else if c_idx cursor \<le> j \<and> j \<le> max_idx n then keys n (j - 1)
                                  else keys n j)\<rparr>"
    and s3: "s3 = s\<lparr>heap := (heap s)(na \<mapsto> n3)\<rparr>"
    and f: "f = first_tnode_idx (tree s)"
  shows "insert_displace_max (tree s) n (c_idx cursor) key = (n3, c_idx cursor, tnode_key_max n) \<and>
    (successor n = None \<or> right n = None \<longrightarrow>
       (\<exists>s7 c1 lf.
           insert_new_leaf s3 (Some na) (cursor\<lparr>c_side := TNODE_RIGHT, c_idx := f\<rparr>) (tnode_key_max n)
             = Some (brk s, s7, c1) \<and>
           heap s7 = (heap s)(na \<mapsto> n3\<lparr>right := Some (brk s)\<rparr>, brk s \<mapsto> lf) \<and>
           tnode_keys lf = [tnode_key_max n] \<and> parent lf = Some na \<and>
           tnode_get_side lf = TNODE_RIGHT \<and> is_leaf_node lf \<and>
           ttree_insert_at_cursor s cursor item =
             do { (s8, c2) \<leftarrow> fixup_after_insertion s7 (brk s) (Some c1);
                  _ \<leftarrow> c2;
                  Some (s8, cursor) })) \<and>
    (\<forall>sa sn. successor n = Some sa \<and> right n \<noteq> None \<and> sa \<noteq> na \<and> heap s sa = Some sn \<and>
         tnode_is_full (tree s) sn \<longrightarrow>
       (\<exists>s7 c1 lf.
           insert_new_leaf s3 (Some sa) (cursor\<lparr>c_side := TNODE_LEFT, c_idx := f\<rparr>) (tnode_key_max n)
             = Some (brk s, s7, c1) \<and>
           heap s7 = (heap s)(na \<mapsto> n3, sa \<mapsto> sn\<lparr>left := Some (brk s)\<rparr>, brk s \<mapsto> lf) \<and>
           tnode_keys lf = [tnode_key_max n] \<and> parent lf = Some sa \<and>
           tnode_get_side lf = TNODE_LEFT \<and> is_leaf_node lf \<and>
           ttree_insert_at_cursor s cursor item =
             do { (s8, c2) \<leftarrow> fixup_after_insertion s7 (brk s) (Some c1);
                  _ \<leftarrow> c2;
                  Some (s8, cursor) })) \<and>
    (\<forall>sa sn. successor n = Some sa \<and> right n \<noteq> None \<and> sa \<noteq> na \<and> heap s sa = Some sn \<and>
         \<not> tnode_is_full (tree s) sn \<and> 0 \<le> min_idx sn \<and> min_idx sn \<le> max_idx sn + 1 \<and>
         max_idx sn < keys_per_tnode (tree s) \<longrightarrow>
       (\<exists>sn'. ttree_insert_at_cursor s cursor item
                 = Some (s\<lparr>heap := (heap s)(na \<mapsto> n3, sa \<mapsto> sn')\<rparr>, cursor) \<and>
              tnode_keys sn' = tnode_key_max n # tnode_keys sn \<and>
              parent sn' = parent sn \<and> successor sn' = successor sn \<and> left sn' = left sn \<and>
              right sn' = right sn \<and> bfc sn' = bfc sn))"
proof -
  let ?d = "tnode_key_max n"
  have dm: "insert_displace_max (tree s) n (c_idx cursor) key = (n3, c_idx cursor, ?d)"
    unfolding n3 tnode_key_max_def tnode_key_def
    by (rule insert_displace_max_full [OF n(2,3) cap])
  obtain r where r: "root (tree s) = Some r"
    using rt by auto
  have fb: "- 2048 \<le> f" "f < 2048"
    using cap by (auto simp: f first_tnode_idx_def drop_bit_eq_div)
  have h3: "heap s3 na = Some n3" "heap s3 (brk s) = None" "brk s3 = brk s" "tree s3 = tree s"
    "uninit s3 = uninit s"
    using n(1) fresh by (auto simp: s3)
  have lk: "successor n3 = successor n" "right n3 = right n"
    by (simp_all add: n3)
  have nb: "na \<noteq> brk s"
    using n(1) fresh by auto
  have hb: "heap s3 (brk s3) = None"
    using h3 by simp
  have cc: "cursor\<lparr>c_idx := c_idx cursor\<rparr> = cursor"
    by simp
  note unf = ttree_insert_at_cursor_def TTREE_ASSERT_def Let_def key [symmetric] dm modify_def
    s3 [symmetric] h3 lk f [symmetric] cc insert_create_new_node_def
  have A: "\<exists>s7 c1 lf.
           insert_new_leaf s3 (Some na) (cursor\<lparr>c_side := TNODE_RIGHT, c_idx := f\<rparr>) ?d
             = Some (brk s, s7, c1) \<and>
           heap s7 = (heap s)(na \<mapsto> n3\<lparr>right := Some (brk s)\<rparr>, brk s \<mapsto> lf) \<and>
           tnode_keys lf = [?d] \<and> parent lf = Some na \<and>
           tnode_get_side lf = TNODE_RIGHT \<and> is_leaf_node lf \<and>
           ttree_insert_at_cursor s cursor item =
             do { (s8, c2) \<leftarrow> fixup_after_insertion s7 (brk s) (Some c1);
                  _ \<leftarrow> c2;
                  Some (s8, cursor) }"
    if c: "successor n = None \<or> right n = None"
  proof -
    define lf where "lf = \<lparr>parent = Some na, successor = None, left = None, right = None,
                               min_idx = f, max_idx = f, bfc = 0,
                               node_side = 1 + 1, keys = (uninit s)(f := ?d)\<rparr>"
    define s7 where "s7 = s3\<lparr>heap := (heap s3)(brk s \<mapsto> lf, na \<mapsto> n3\<lparr>right := Some (brk s)\<rparr>),
                              brk := Suc (brk s)\<rparr>"
    define c1 where "c1 = cursor\<lparr>c_side := TNODE_RIGHT, c_idx := f, c_tnode := Some (brk s),
                                  c_state := CURSOR_OPENED\<rparr>"
    have nl: "insert_new_leaf s3 (Some na) (cursor\<lparr>c_side := TNODE_RIGHT, c_idx := f\<rparr>) ?d
        = Some (brk s, s7, c1)"
      using insert_new_leaf_result [OF h3(1) hb, of "cursor\<lparr>c_side := TNODE_RIGHT, c_idx := f\<rparr>" 1 ?d]
        fb by (simp add: TNODE_RIGHT_def h3 lf_def s7_def c1_def)
    have ins: "ttree_insert_at_cursor s cursor item =
        do { (s4, _) \<leftarrow> insert_create_new_node s3 (Some na)
                          (cursor\<lparr>c_side := TNODE_RIGHT, c_idx := f\<rparr>) ?d;
              Some (s4, cursor) }"
      using cur n(1,2) r c by (auto simp add: unf)
    have p1: "heap s7 = (heap s)(na \<mapsto> n3\<lparr>right := Some (brk s)\<rparr>, brk s \<mapsto> lf)"
      using nb by (auto simp: s7_def s3 fun_eq_iff)
    have p2: "tnode_keys lf = [?d]" "parent lf = Some na" "tnode_get_side lf = TNODE_RIGHT"
      "is_leaf_node lf"
      by (simp_all add: lf_def tnode_keys_def tnode_get_side_def is_leaf_node_def TNODE_RIGHT_def)
    have p3: "ttree_insert_at_cursor s cursor item =
             do { (s8, c2) \<leftarrow> fixup_after_insertion s7 (brk s) (Some c1);
                  _ \<leftarrow> c2;
                  Some (s8, cursor) }"
      unfolding ins insert_create_new_node_def nl
      by (cases "fixup_after_insertion s7 (brk s) (Some c1)")
         (auto split: Option.bind_split prod.splits)
    show ?thesis
      using nl p1 p2 p3 by blast
  qed
  have B: "\<exists>s7 c1 lf.
           insert_new_leaf s3 (Some sa) (cursor\<lparr>c_side := TNODE_LEFT, c_idx := f\<rparr>) ?d
             = Some (brk s, s7, c1) \<and>
           heap s7 = (heap s)(na \<mapsto> n3, sa \<mapsto> sn\<lparr>left := Some (brk s)\<rparr>, brk s \<mapsto> lf) \<and>
           tnode_keys lf = [?d] \<and> parent lf = Some sa \<and>
           tnode_get_side lf = TNODE_LEFT \<and> is_leaf_node lf \<and>
           ttree_insert_at_cursor s cursor item =
             do { (s8, c2) \<leftarrow> fixup_after_insertion s7 (brk s) (Some c1);
                  _ \<leftarrow> c2;
                  Some (s8, cursor) }"
    if c: "successor n = Some sa" "right n \<noteq> None" "sa \<noteq> na" "heap s sa = Some sn"
      "tnode_is_full (tree s) sn" for sa sn
  proof -
    define lf where "lf = \<lparr>parent = Some sa, successor = None, left = None, right = None,
                               min_idx = f, max_idx = f, bfc = 0,
                               node_side = 0 + 1, keys = (uninit s)(f := ?d)\<rparr>"
    define s7 where "s7 = s3\<lparr>heap := (heap s3)(brk s \<mapsto> lf, sa \<mapsto> sn\<lparr>left := Some (brk s)\<rparr>),
                              brk := Suc (brk s)\<rparr>"
    define c1 where "c1 = cursor\<lparr>c_side := TNODE_LEFT, c_idx := f, c_tnode := Some (brk s),
                                  c_state := CURSOR_OPENED\<rparr>"
    have hs: "heap s3 sa = Some sn"
      using c by (simp add: s3)
    have sb: "sa \<noteq> brk s"
      using c fresh by auto
    have nl: "insert_new_leaf s3 (Some sa) (cursor\<lparr>c_side := TNODE_LEFT, c_idx := f\<rparr>) ?d
        = Some (brk s, s7, c1)"
      using insert_new_leaf_result [OF hs hb, of "cursor\<lparr>c_side := TNODE_LEFT, c_idx := f\<rparr>" 0 ?d]
        fb by (simp add: TNODE_LEFT_def h3 lf_def s7_def c1_def)
    have ins: "ttree_insert_at_cursor s cursor item =
        do { (s4, _) \<leftarrow> insert_create_new_node s3 (Some sa)
                          (cursor\<lparr>c_side := TNODE_LEFT, c_idx := f\<rparr>) ?d;
              Some (s4, cursor) }"
      using cur n(1,2) r c hs by (auto simp add: unf)
    have p1: "heap s7 = (heap s)(na \<mapsto> n3, sa \<mapsto> sn\<lparr>left := Some (brk s)\<rparr>, brk s \<mapsto> lf)"
      using nb sb c(3) by (auto simp: s7_def s3 fun_eq_iff)
    have p2: "tnode_keys lf = [?d]" "parent lf = Some sa" "tnode_get_side lf = TNODE_LEFT"
      "is_leaf_node lf"
      by (simp_all add: lf_def tnode_keys_def tnode_get_side_def is_leaf_node_def TNODE_LEFT_def)
    have p3: "ttree_insert_at_cursor s cursor item =
             do { (s8, c2) \<leftarrow> fixup_after_insertion s7 (brk s) (Some c1);
                  _ \<leftarrow> c2;
                  Some (s8, cursor) }"
      unfolding ins insert_create_new_node_def nl
      by (cases "fixup_after_insertion s7 (brk s) (Some c1)")
         (auto split: Option.bind_split prod.splits)
    show ?thesis
      using nl p1 p2 p3 by blast
  qed
  have C: "\<exists>sn'. ttree_insert_at_cursor s cursor item
                 = Some (s\<lparr>heap := (heap s)(na \<mapsto> n3, sa \<mapsto> sn')\<rparr>, cursor) \<and>
              tnode_keys sn' = ?d # tnode_keys sn \<and>
              parent sn' = parent sn \<and> successor sn' = successor sn \<and> left sn' = left sn \<and>
              right sn' = right sn \<and> bfc sn' = bfc sn"
    if c: "successor n = Some sa" "right n \<noteq> None" "sa \<noteq> na" "heap s sa = Some sn"
      "\<not> tnode_is_full (tree s) sn" "0 \<le> min_idx sn" "min_idx sn \<le> max_idx sn + 1"
      "max_idx sn < keys_per_tnode (tree s)" for sa sn
  proof -
    have hs: "heap s3 sa = Some sn"
      using c by (simp add: s3)
    have nf: "\<not> tnode_is_full (tree s3) sn"
      and w: "0 \<le> min_idx sn" "min_idx sn \<le> max_idx sn + 1" "max_idx sn < keys_per_tnode (tree s3)"
      and cp: "keys_per_tnode (tree s3) \<le> 2048"
      using c cap by (simp_all add: h3)
    from insert_bound_at_min [OF hs nf w cp,
        of "cursor\<lparr>c_idx := min_idx sn, c_tnode := Some sa\<rparr>" ?d]
    obtain sn' idx' where ib: "insert_bound s3 sa (cursor\<lparr>c_idx := min_idx sn, c_tnode := Some sa\<rparr>) ?d
          = Some (s3\<lparr>heap := (heap s3)(sa \<mapsto> sn')\<rparr>,
                  cursor\<lparr>c_idx := min_idx sn, c_tnode := Some sa, c_idx := idx',
                         c_state := CURSOR_OPENED\<rparr>)"
      and k: "tnode_keys sn' = ?d # tnode_keys sn"
        "parent sn' = parent sn" "successor sn' = successor sn" "left sn' = left sn"
        "right sn' = right sn" "bfc sn' = bfc sn"
      by auto
    have "ttree_insert_at_cursor s cursor item
        = Some (s3\<lparr>heap := (heap s3)(sa \<mapsto> sn')\<rparr>, cursor)"
      using cur n(1,2) r c hs ib by (auto simp add: unf)
    moreover have "s3\<lparr>heap := (heap s3)(sa \<mapsto> sn')\<rparr> = s\<lparr>heap := (heap s)(na \<mapsto> n3, sa \<mapsto> sn')\<rparr>"
      by (simp add: s3)
    ultimately show ?thesis
      using k by auto
  qed
  show ?thesis
    using dm A B C by blast
qed

text \<open>
  The amended C2 at the tree above and the key \<open>25\<close>: the leaf at address 1 is full and
  has no right child, so the displaced maximum \<open>40\<close> goes to a new right child at
  address 2.
\<close>

theorem insert_at_cursor_full_node_witness:
  "\<exists>s c n. displaced_max_example = Some s \<and>
     ttree_lookup s 25 (Some (cursor_at 0 0 CURSOR_CLOSED)) = Some (NULL, Some c) \<and>
     root (tree s) \<noteq> None \<and> c_ttree c \<noteq> None \<and> c_side c = TNODE_BOUND \<and>
     c_tnode c = Some 1 \<and> c_idx c = 2 \<and> heap s 1 = Some n \<and> tnode_is_full (tree s) n \<and>
     min_idx n = 0 \<and> keys_per_tnode (tree s) = 4 \<and> heap s (brk s) = None \<and> brk s = 2 \<and>
     right n = None \<and> tnode_key_max n = 40 \<and>
     (\<exists>s7 c1 lf n3.
         insert_displace_max (tree s) n 2 25 = (n3, 2, 40) \<and>
         insert_new_leaf (s\<lparr>heap := (heap s)(1 \<mapsto> n3)\<rparr>) (Some 1)
           (c\<lparr>c_side := TNODE_RIGHT, c_idx := 1\<rparr>) 40 = Some (2, s7, c1) \<and>
         heap s7 = (heap s)(1 \<mapsto> n3\<lparr>right := Some 2\<rparr>, 2 \<mapsto> lf) \<and>
         tnode_keys lf = [40] \<and> parent lf = Some 1 \<and> tnode_get_side lf = TNODE_RIGHT \<and>
         ttree_insert_at_cursor s c 25 =
           do { (s8, c2) \<leftarrow> fixup_after_insertion s7 2 (Some c1); _ \<leftarrow> c2; Some (s8, c) })"
proof -
  have "do { s \<leftarrow> displaced_max_example;
             (item, cur) \<leftarrow> ttree_lookup s 25 (Some (cursor_at 0 0 CURSOR_CLOSED));
             c \<leftarrow> cur;
             na \<leftarrow> c_tnode c;
             n \<leftarrow> heap s na;
             _ \<leftarrow> root (tree s);
             _ \<leftarrow> c_ttree c;
             Some (item, c_side c, na, c_idx c, tnode_is_full (tree s) n, min_idx n,
                   keys_per_tnode (tree s), Option.is_none (heap s (brk s)), brk s, right n,
                   tnode_key_max n, key_offs (tree s)) }
        = Some (0, - 1, 1, 2, True, 0, 4, True, 2, None, 40, 0)"
    by code_simp
  then obtain s c n where ex: "displaced_max_example = Some s"
    and lk: "ttree_lookup s 25 (Some (cursor_at 0 0 CURSOR_CLOSED)) = Some (0, Some c)"
    and c: "c_tnode c = Some 1" "c_side c = - 1" "c_idx c = 2" "c_ttree c \<noteq> None"
    and n: "heap s 1 = Some n" "tnode_is_full (tree s) n" "min_idx n = 0" "right n = None"
      "tnode_key_max n = 40"
    and s: "root (tree s) \<noteq> None" "keys_per_tnode (tree s) = 4" "heap s (brk s) = None"
      "brk s = 2" "key_offs (tree s) = 0"
    by (auto simp: bind_eq_Some_conv Option.is_none_def split: prod.splits)
  have cap: "2 \<le> keys_per_tnode (tree s)" "keys_per_tnode (tree s) \<le> 2048"
    using s by simp_all
  have cb: "c_side c = TNODE_BOUND"
    using c by (simp add: TNODE_BOUND_def TNODE_UNDEF_def)
  have f: "first_tnode_idx (tree s) = 1"
    using s by (simp add: first_tnode_idx_def)
  have k: "ttree_item2key (tree s) 25 = 25"
    using s by (simp add: ttree_item2key_def)
  from insert_at_cursor_full_node [OF s(1) c(4) cb c(1) n(1,2,3) cap s(3) refl refl refl refl,
      of 25] n(4)
  obtain s7 c1 lf where
    "insert_displace_max (tree s) n (c_idx c) (ttree_item2key (tree s) 25)
       = (n\<lparr>keys := (\<lambda>j. if j = c_idx c then ttree_item2key (tree s) 25
                                  else if c_idx c \<le> j \<and> j \<le> max_idx n then keys n (j - 1)
                                  else keys n j)\<rparr>, c_idx c, tnode_key_max n)"
    "insert_new_leaf (s\<lparr>heap := (heap s)(1 \<mapsto> n\<lparr>keys := (\<lambda>j. if j = c_idx c then ttree_item2key (tree s) 25
                                  else if c_idx c \<le> j \<and> j \<le> max_idx n then keys n (j - 1)
                                  else keys n j)\<rparr>)\<rparr>) (Some 1)
           (c\<lparr>c_side := TNODE_RIGHT, c_idx := first_tnode_idx (tree s)\<rparr>) (tnode_key_max n)
       = Some (brk s, s7, c1)"
    "heap s7 = (heap s)(1 \<mapsto> n\<lparr>keys := (\<lambda>j. if j = c_idx c then ttree_item2key (tree s) 25
                                  else if c_idx c \<le> j \<and> j \<le> max_idx n then keys n (j - 1)
                                  else keys n j)\<rparr>\<lparr>right := Some (brk s)\<rparr>, brk s \<mapsto> lf)"
    "tnode_keys lf = [tnode_key_max n]" "parent lf = Some 1" "tnode_get_side lf = TNODE_RIGHT"
    "ttree_insert_at_cursor s c 25 =
       do { (s8, c2) \<leftarrow> fixup_after_insertion s7 (brk s) (Some c1); _ \<leftarrow> c2; Some (s8, c) }"
    by auto
  then show ?thesis
    using ex lk c cb n s unfolding f k
    by (intro exI [of _ s] exI [of _ c] exI [of _ n]) (auto simp: NULL_def)
qed

section \<open>Insertion followed by deletion (C8)\<close>


subsection \<open>The lookup and the window of a node\<close>




















end
